theory Spec2Isabelle
  imports
    Main
    "HOL-Library.Word"
    "HOL-Library.Char_ord"
    "HOL-Library.List_Lexorder"
    "HOL-Library.Multiset"
begin

section \<open>Trust Oracle backend: a shallow embedding\<close>

text \<open>
  The server is JavaScript. The embedding keeps the source's function names and follows
  each function statement by statement.

  \<^item> A JavaScript string is a \<^typ>\<open>string\<close>; each \<^typ>\<open>char\<close> stands for one UTF-16 code
    unit in the range 0..255. Strings with code units above 255 are outside the model.
  \<^item> A \<open>Uint8Array\<close> is a list of 8-bit words.
  \<^item> A thrown exception is the \<open>Inl\<close> branch of a sum; \<open>undefined\<close> is \<open>None\<close>.
  \<^item> \<open>Date.now()\<close> is a parameter \<open>now\<close> (milliseconds, an integer).
  \<^item> The libraries the server calls (SHA-256 of Node's \<open>crypto\<close>, Ed25519 of
    \<open>tweetnacl\<close>, the chain client, and what better-sqlite3 does with an \<open>undefined\<close>
    parameter) are parameters of the functions that use them.
\<close>

type_synonym byte = "8 word"

datatype js_error = Error string | TypeError string

fun error_message :: "js_error \<Rightarrow> string" where
  "error_message (Error m) = m"
| "error_message (TypeError m) = m"

subsection \<open>CryptoManager: hexadecimal text\<close>

text \<open>
  \<open>parseInt(s, 16)\<close>: leading white space is skipped, then an optional sign, then an
  optional \<open>0x\<close> or \<open>0X\<close>; the longest run of hexadecimal digits that follows is the
  value, and \<open>NaN\<close> (here \<open>None\<close>) is the result when that run is empty.
\<close>

definition hex_digit :: "char \<Rightarrow> nat option" where
  "hex_digit c =
     (let n = (of_char c :: nat) in
      if 48 \<le> n \<and> n \<le> 57 then Some (n - 48)
      else if 97 \<le> n \<and> n \<le> 102 then Some (n - 87)
      else if 65 \<le> n \<and> n \<le> 70 then Some (n - 55)
      else None)"

definition js_whitespace :: "char \<Rightarrow> bool" where
  "js_whitespace c = ((of_char c :: nat) \<in> {9, 10, 11, 12, 13, 32, 160})"

definition strip_0x :: "string \<Rightarrow> string" where
  "strip_0x s =
     (case s of
        a # b # rest \<Rightarrow>
          if a = CHR ''0'' \<and> (b = CHR ''x'' \<or> b = CHR ''X'') then rest else s
      | _ \<Rightarrow> s)"

definition digits_value :: "nat list \<Rightarrow> nat" where
  "digits_value ds = foldl (\<lambda>acc d. 16 * acc + d) 0 ds"

definition parseInt16 :: "string \<Rightarrow> int option" where
  "parseInt16 s =
     (let t = dropWhile js_whitespace s;
          neg = (t \<noteq> [] \<and> hd t = CHR ''-'');
          u = (if t \<noteq> [] \<and> (hd t = CHR ''-'' \<or> hd t = CHR ''+'') then tl t else t);
          v = strip_0x u;
          ds = map (\<lambda>c. the (hex_digit c)) (takeWhile (\<lambda>c. hex_digit c \<noteq> None) v)
      in if ds = [] then None
         else Some (if neg then - int (digits_value ds) else int (digits_value ds)))"

text \<open>Storing into a \<open>Uint8Array\<close>: \<open>NaN\<close> becomes 0, any other number wraps modulo 256.\<close>

definition to_uint8 :: "int option \<Rightarrow> byte" where
  "to_uint8 v = (case v of None \<Rightarrow> 0 | Some n \<Rightarrow> word_of_int n)"

fun hex_pairs :: "string \<Rightarrow> byte list" where
  "hex_pairs (a # b # rest) = to_uint8 (parseInt16 [a, b]) # hex_pairs rest"
| "hex_pairs _ = []"

definition hexToBytes :: "string \<Rightarrow> js_error + byte list" where
  "hexToBytes hexString =
     (let hex = (if take 2 hexString = ''0x'' then drop 2 hexString else hexString)
      in if length hex mod 2 \<noteq> 0 then Inl (Error ''Invalid hex string length'')
         else Inr (hex_pairs hex))"

definition hex_char :: "nat \<Rightarrow> char" where
  "hex_char d = (if d < 10 then char_of (48 + d) else char_of (87 + d))"



subsection \<open>JSON values and \<open>JSON.stringify\<close>\<close>

text \<open>
  A number that holds an integer of magnitude at most \<open>2^53\<close> is \<open>JNum\<close>: JavaScript
  prints it in plain decimal, digit for digit. Any other number is \<open>JReal\<close> over an
  abstract type; its text is whatever the runtime prints, given as the parameter \<open>fmt\<close>.
  Integers beyond \<open>2^53\<close> are outside the model: a number is a double there, and the
  digits JavaScript prints are those of the nearest double. An object is the list of its
  own properties in enumeration order.
\<close>

datatype 'f json =
    JUndefined
  | JNull
  | JBool bool
  | JNum int
  | JReal 'f
  | JStr string
  | JArr "'f json list"
  | JObj "(string \<times> 'f json) list"

function dec_digits :: "int \<Rightarrow> string" where
  "dec_digits n =
     (if n < 10 then [char_of (48 + n)] else dec_digits (n div 10) @ [char_of (48 + n mod 10)])"
  by pat_completeness auto
termination
  by (relation "measure nat") auto

declare dec_digits.simps [simp del]

definition number_text :: "int \<Rightarrow> string" where
  "number_text n = (if n < 0 then CHR ''-'' # dec_digits (- n) else dec_digits n)"

definition quote_char :: "char \<Rightarrow> string" where
  "quote_char c =
     (let n = (of_char c :: nat) in
      if n = 34 then [CHR 0x5C, CHR 0x22]
      else if n = 92 then [CHR 0x5C, CHR 0x5C]
      else if n = 8 then [CHR 0x5C, CHR ''b'']
      else if n = 12 then [CHR 0x5C, CHR ''f'']
      else if n = 10 then [CHR 0x5C, CHR ''n'']
      else if n = 13 then [CHR 0x5C, CHR ''r'']
      else if n = 9 then [CHR 0x5C, CHR ''t'']
      else if n < 32 then
        [CHR 0x5C, CHR ''u'', CHR ''0'', CHR ''0'', hex_char (n div 16), hex_char (n mod 16)]
      else [c])"

definition quote :: "string \<Rightarrow> string" where
  "quote s = CHR 0x22 # concat (map quote_char s) @ [CHR 0x22]"

fun join_comma :: "string list \<Rightarrow> string" where
  "join_comma [] = []"
| "join_comma [x] = x"
| "join_comma (x # y # ys) = x @ '','' @ join_comma (y # ys)"

text \<open>
  \<open>JSON.stringify(v)\<close> for a value that has a JSON text. \<open>undefined\<close> has none: as an
  array element it is printed \<open>null\<close>, as a property value the property is left out.
\<close>

fun stringify :: "('f \<Rightarrow> string) \<Rightarrow> 'f json \<Rightarrow> string" where
  "stringify fmt JUndefined = ''null''"
| "stringify fmt JNull = ''null''"
| "stringify fmt (JBool b) = (if b then ''true'' else ''false'')"
| "stringify fmt (JNum n) = number_text n"
| "stringify fmt (JReal x) = fmt x"
| "stringify fmt (JStr s) = quote s"
| "stringify fmt (JArr xs) = ''['' @ join_comma (map (stringify fmt) xs) @ '']''"
| "stringify fmt (JObj ps) =
     ''{'' @ join_comma (concat (map (\<lambda>(k, v).
              if v = JUndefined then [] else [quote k @ '':'' @ stringify fmt v]) ps)) @ ''}''"

subsection \<open>Objects: property order\<close>

text \<open>
  An object enumerates its array-index keys first, in ascending numeric order, and then
  its other string keys in the order they were created. Assigning to an existing key
  keeps the key's place. Assigning to the key \<open>__proto__\<close> of a plain object reaches the
  prototype setter and creates no property.
\<close>

definition dec_value :: "string \<Rightarrow> int" where
  "dec_value k = foldl (\<lambda>acc c. 10 * acc + (of_char c - 48)) 0 k"

definition is_array_index :: "string \<Rightarrow> bool" where
  "is_array_index k =
     (k \<noteq> [] \<and> list_all (\<lambda>c. 48 \<le> (of_char c :: nat) \<and> (of_char c :: nat) \<le> 57) k
      \<and> (k = ''0'' \<or> hd k \<noteq> CHR ''0'') \<and> dec_value k < 4294967295)"

fun insert_index :: "string \<Rightarrow> 'v \<Rightarrow> (string \<times> 'v) list \<Rightarrow> (string \<times> 'v) list" where
  "insert_index k v [] = [(k, v)]"
| "insert_index k v ((k', v') # rest) =
     (if is_array_index k' \<and> dec_value k' < dec_value k then (k', v') # insert_index k v rest
      else (k, v) # (k', v') # rest)"

definition js_set :: "(string \<times> 'v) list \<Rightarrow> string \<Rightarrow> 'v \<Rightarrow> (string \<times> 'v) list" where
  "js_set obj k v =
     (if k = ''__proto__'' then obj
      else if k \<in> fst ` set obj
      then map (\<lambda>(k', v'). if k' = k then (k', v) else (k', v')) obj
      else if is_array_index k then insert_index k v obj
      else obj @ [(k, v)])"

definition js_get :: "(string \<times> 'f json) list \<Rightarrow> string \<Rightarrow> 'f json" where
  "js_get obj k = (case map_of obj k of None \<Rightarrow> JUndefined | Some v \<Rightarrow> v)"

definition Object_keys :: "(string \<times> 'v) list \<Rightarrow> string list" where
  "Object_keys obj = map fst obj"

subsection \<open>CryptoManager.buildCanonicalJSON\<close>

text \<open>
  \<open>Object.keys(obj).sort()\<close> orders the keys as strings, code unit by code unit; the loop
  then copies each property into a fresh object, and \<open>JSON.stringify\<close> prints it.
\<close>

definition sortedObject :: "(string \<times> 'f json) list \<Rightarrow> (string \<times> 'f json) list" where
  "sortedObject obj =
     (let sortedKeys = sort (Object_keys obj)
      in foldl (\<lambda>sorted key. js_set sorted key (js_get obj key)) [] sortedKeys)"

definition buildCanonicalJSON :: "('f \<Rightarrow> string) \<Rightarrow> (string \<times> 'f json) list \<Rightarrow> string" where
  "buildCanonicalJSON fmt obj = stringify fmt (JObj (sortedObject obj))"

text \<open>
  The attribute sets the canonicalizer is given are keyed by attribute names: the keys
  are distinct, and none is an array index or \<open>__proto__\<close>.
\<close>

definition attribute_set :: "(string \<times> 'v) list \<Rightarrow> bool" where
  "attribute_set X =
     (distinct (map fst X)
      \<and> list_all (\<lambda>k. \<not> is_array_index k \<and> k \<noteq> ''__proto__'') (map fst X))"

text \<open>The payload of the repository's sign-and-verify test; each sample is kept as its text.\<close>

definition test_payload :: "(string \<times> string json) list" where
  "test_payload =
     [(''deviceId'', JStr ''test_001''), (''stepCount'', JNum 100),
      (''timestamp'', JNum 1234567890), (''firmwareVersion'', JNum 100),
      (''batteryPercent'', JNum 85),
      (''rawAccSamples'', JArr [JArr [JReal ''1.1'', JReal ''2.2'', JReal ''3.3''],
                                JArr [JReal ''4.4'', JReal ''5.5'', JReal ''6.6'']])]"

subsection \<open>CryptoManager.verifySignature and signData\<close>

text \<open>
  The runtime and the two libraries are parameters: how a non-integer number prints,
  SHA-256, and tweetnacl's \<open>sign.detached\<close> and \<open>sign.detached.verify\<close>, either of which
  may throw (on a key or signature of the wrong size).
\<close>

record 'f runtime =
  number_toString :: "'f \<Rightarrow> string"
  sha256 :: "byte list \<Rightarrow> byte list"
  sign_detached :: "byte list \<Rightarrow> byte list \<Rightarrow> js_error + byte list"
  sign_detached_verify :: "byte list \<Rightarrow> byte list \<Rightarrow> byte list \<Rightarrow> js_error + bool"

definition utf8 :: "string \<Rightarrow> byte list" where
  "utf8 s = concat (map (\<lambda>c. let n = (of_char c :: nat) in
                if n < 128 then [of_nat n]
                else [of_nat (192 + n div 64), of_nat (128 + n mod 64)]) s)"

text \<open>\<open>crypto.createHash('sha256').update(canonicalJson, 'utf8').digest()\<close>\<close>

definition payload_hash :: "'f runtime \<Rightarrow> (string \<times> 'f json) list \<Rightarrow> byte list" where
  "payload_hash rt payload = sha256 rt (utf8 (buildCanonicalJSON (number_toString rt) payload))"

text \<open>The whole body is inside \<open>try\<close>; the \<open>catch\<close> returns \<open>false\<close>.\<close>

definition verifySignature ::
  "'f runtime \<Rightarrow> (string \<times> 'f json) list \<Rightarrow> string \<Rightarrow> string \<Rightarrow> bool" where
  "verifySignature rt payload signatureHex publicKeyHex =
     (let hash = payload_hash rt payload in
      case hexToBytes signatureHex of
        Inl e \<Rightarrow> False
      | Inr signature \<Rightarrow>
          (case hexToBytes publicKeyHex of
             Inl e \<Rightarrow> False
           | Inr publicKey \<Rightarrow>
               (case sign_detached_verify rt hash signature publicKey of
                  Inl e \<Rightarrow> False
                | Inr isValid \<Rightarrow> isValid)))"


text \<open>
  A stand-in for the libraries, to run the server on concrete inputs: the digest is the
  sum of the bytes, a signature is the digest followed by the key, and the public key
  equals the secret key. Every theorem below is stated for an arbitrary runtime.
\<close>

definition stub_runtime :: "string runtime" where
  "stub_runtime =
     \<lparr> number_toString = (\<lambda>x. x),
       sha256 = (\<lambda>m. [foldr (+) m 0]),
       sign_detached = (\<lambda>h sk. Inr (h @ sk)),
       sign_detached_verify = (\<lambda>h s pk. Inr (s = h @ pk)) \<rparr>"


subsection \<open>DeviceManager: the two tables\<close>

text \<open>
  A table is the list of its rows in insertion order. \<open>next_id\<close> is the \<open>AUTOINCREMENT\<close>
  counter of \<open>step_data\<close>. A \<open>db.run\<close> is applied at the moment it is issued.
\<close>

record device =
  device_id :: string
  public_key :: string
  registered_at :: int
  last_seen :: "int option"
  firmware_version :: "string option"
  total_steps :: int
  total_submissions :: int
  status :: string
  sui_device_object_id :: "string option"

record step_row =
  row_id :: nat
  sd_device_id :: string
  sd_step_count :: int
  sd_timestamp :: int
  sd_raw_samples :: string
  sd_battery_percent :: int
  sd_signature :: string
  sd_verified :: bool
  sd_received_at :: int
  sd_submitted_to_chain :: bool
  sd_tx_digest :: "string option"

record connection =
  conn_ws :: nat
  conn_lastSeen :: int
  conn_authenticatedAt :: int

record store =
  devices :: "device list"
  step_data :: "step_row list"
  next_id :: nat
  connections :: "string \<rightharpoonup> connection"

definition empty_store :: store where
  "empty_store = \<lparr> devices = [], step_data = [], next_id = 1, connections = Map.empty \<rparr>"

definition getDevice :: "store \<Rightarrow> string \<Rightarrow> device option" where
  "getDevice s deviceId = find (\<lambda>d. device_id d = deviceId) (devices s)"

text \<open>
  The \<open>INSERT\<close> fails with \<open>UNIQUE constraint failed\<close> when the device id (primary key) or
  the public key (\<open>UNIQUE\<close>) is already in the table; the \<open>catch\<close> then updates \<open>last_seen\<close>
  of the row with this device id and returns \<open>getDevice(deviceId)\<close>.
\<close>

definition registerDevice :: "int \<Rightarrow> string \<Rightarrow> string \<Rightarrow> store \<Rightarrow> store \<times> device option" where
  "registerDevice now deviceId publicKeyHex s =
     (if \<exists>d \<in> set (devices s). device_id d = deviceId \<or> public_key d = publicKeyHex then
        let s' = s\<lparr> devices := map (\<lambda>d. if device_id d = deviceId
                                          then d\<lparr> last_seen := Some now \<rparr> else d) (devices s) \<rparr>
        in (s', getDevice s' deviceId)
      else
        let s' = s\<lparr> devices := devices s @
                   [\<lparr> device_id = deviceId, public_key = publicKeyHex, registered_at = now,
                      last_seen = Some now, firmware_version = None, total_steps = 0,
                      total_submissions = 0, status = ''active'',
                      sui_device_object_id = None \<rparr>] \<rparr>
        in (s', getDevice s' deviceId))"

definition updateDeviceObjectId :: "string \<Rightarrow> string \<Rightarrow> store \<Rightarrow> store" where
  "updateDeviceObjectId deviceId objectId s =
     s\<lparr> devices := map (\<lambda>d. if device_id d = deviceId
                              then d\<lparr> sui_device_object_id := Some objectId \<rparr> else d) (devices s) \<rparr>"

text \<open>\<open>x || 100\<close> on a number that may be missing.\<close>

definition or_100 :: "int option \<Rightarrow> int" where
  "or_100 x = (case x of None \<Rightarrow> 100 | Some v \<Rightarrow> if v = 0 then 100 else v)"

definition samples_json :: "'f list list \<Rightarrow> 'f json" where
  "samples_json r = JArr (map (\<lambda>t. JArr (map JReal t)) r)"

record 'f step_fields =
  f_stepCount :: int
  f_timestamp :: int
  f_rawAccSamples :: "'f list list option"
  f_batteryPercent :: "int option"
  f_signature :: string
  f_verified :: bool

text \<open>
  The wrapper's \<open>run\<close> is \<open>promisify(db.run)\<close>. sqlite3 calls back with the error alone (the
  row id is on \<open>this\<close>), so the promise resolves to \<open>undefined\<close>, and \<open>result.lastID\<close>, read
  after the \<open>INSERT\<close> and the \<open>UPDATE\<close>, throws a \<open>TypeError\<close>: both statements are applied,
  and the promise that \<open>storeStepData\<close> returns is rejected.
\<close>

definition storeStepData ::
  "('f \<Rightarrow> string) \<Rightarrow> int \<Rightarrow> string \<Rightarrow> 'f step_fields \<Rightarrow> store
     \<Rightarrow> store \<times> (js_error + nat)" where
  "storeStepData fmt now deviceId stepData s =
     (let rawSamplesJson = stringify fmt (samples_json
            (case f_rawAccSamples stepData of None \<Rightarrow> [] | Some r \<Rightarrow> r));
          row = \<lparr> row_id = next_id s, sd_device_id = deviceId,
                  sd_step_count = f_stepCount stepData, sd_timestamp = f_timestamp stepData,
                  sd_raw_samples = rawSamplesJson,
                  sd_battery_percent = or_100 (f_batteryPercent stepData),
                  sd_signature = f_signature stepData, sd_verified = f_verified stepData,
                  sd_received_at = now, sd_submitted_to_chain = False, sd_tx_digest = None \<rparr>
      in (s\<lparr> step_data := step_data s @ [row],
             next_id := next_id s + 1,
             devices := map (\<lambda>d. if device_id d = deviceId
                                   then d\<lparr> total_steps := total_steps d + f_stepCount stepData,
                                           last_seen := Some now \<rparr>
                                   else d) (devices s) \<rparr>,
          Inl (TypeError (''Cannot read properties of undefined (reading '' @ [CHR 0x27]
                 @ ''lastID'' @ [CHR 0x27] @ '')''))))"

text \<open>
  \<open>if (deviceId)\<close> adds the device filter for a non-empty string only. Rows with equal
  \<open>received_at\<close> are returned in insertion order here; SQLite leaves their order open.
\<close>

definition getPendingStepData :: "string option \<Rightarrow> store \<Rightarrow> step_row list" where
  "getPendingStepData deviceId s =
     sort_key sd_received_at
       (filter (\<lambda>r. \<not> sd_submitted_to_chain r \<and> sd_verified r
                  \<and> (case deviceId of None \<Rightarrow> True
                      | Some d \<Rightarrow> d = [] \<or> sd_device_id r = d)) (step_data s))"

definition markAsSubmitted :: "nat list \<Rightarrow> string \<Rightarrow> store \<Rightarrow> store" where
  "markAsSubmitted dataIds txDigest s =
     (let rows = map (\<lambda>r. if row_id r \<in> set dataIds
                           then r\<lparr> sd_submitted_to_chain := True, sd_tx_digest := Some txDigest \<rparr>
                           else r) (step_data s);
          distinct_ids = remdups (map sd_device_id (filter (\<lambda>r. row_id r \<in> set dataIds) rows))
      in s\<lparr> step_data := rows,
            devices := foldl (\<lambda>ds dev. map (\<lambda>d. if device_id d = dev
                                 then d\<lparr> total_submissions := total_submissions d + 1 \<rparr>
                                 else d) ds) (devices s) distinct_ids \<rparr>)"

definition registerConnection :: "int \<Rightarrow> string \<Rightarrow> nat \<Rightarrow> store \<Rightarrow> store" where
  "registerConnection now deviceId ws s =
     s\<lparr> connections := (connections s)(deviceId \<mapsto>
           \<lparr> conn_ws = ws, conn_lastSeen = now, conn_authenticatedAt = now \<rparr>) \<rparr>"

subsection \<open>DeviceManager: a store with two devices and four submissions\<close>

definition step_fields_of :: "int \<Rightarrow> int \<Rightarrow> string \<Rightarrow> string step_fields" where
  "step_fields_of n t sg =
     \<lparr> f_stepCount = n, f_timestamp = t, f_rawAccSamples = Some [[''1.5'', ''2.5'', ''3.5'']],
       f_batteryPercent = Some 85, f_signature = sg, f_verified = True \<rparr>"

definition two_devices :: store where
  "two_devices =
     updateDeviceObjectId ''d2'' ''0xobj2'' (updateDeviceObjectId ''d1'' ''0xobj1''
       (fst (registerDevice 1000 ''d2'' ''0x2b''
         (fst (registerDevice 1000 ''d1'' ''0x2a'' empty_store)))))"

definition batch_store :: store where
  "batch_store =
     fst (storeStepData (\<lambda>x. x) 2004 ''d1'' (step_fields_of 25 1904 ''0xa4'')
    (fst (storeStepData (\<lambda>x. x) 2003 ''d2'' (step_fields_of 200 1903 ''0xa3'')
    (fst (storeStepData (\<lambda>x. x) 2002 ''d1'' (step_fields_of 75 1902 ''0xa2'')
    (fst (storeStepData (\<lambda>x. x) 2001 ''d1'' (step_fields_of 50 1901 ''0xa1'')
       two_devices)))))))"

subsection \<open>CryptoManager.validatePayload\<close>

text \<open>
  A message is the parsed JSON object of one frame. Its fields carry the types of the wire
  protocol, and a field that is absent is \<open>None\<close>.
\<close>

record 'f message =
  msg_type :: string
  deviceId :: "string option"
  publicKey :: "string option"
  stepCount :: "int option"
  timestamp :: "int option"
  batteryPercent :: "int option"
  rawAccSamples :: "'f list list option"
  firmwareVersion :: "int option"
  signature :: "string option"

record validation =
  valid :: bool
  errors :: "string list"

definition missing_string :: "string option \<Rightarrow> bool" where
  "missing_string x = (x = None \<or> x = Some [])"

definition missing_number :: "int option \<Rightarrow> bool" where
  "missing_number x = (x = None \<or> x = Some 0)"

definition maxAge :: int where
  "maxAge = 7 * 24 * 60 * 60 * 1000"

definition maxFuture :: int where
  "maxFuture = 5 * 60 * 1000"

text \<open>The checks of \<open>validatePayload\<close>, in the order of the source; each adds to \<open>errors\<close>.\<close>

definition required_errors :: "'f message \<Rightarrow> string list" where
  "required_errors payload =
     (if missing_string (deviceId payload) then [''Missing or invalid deviceId''] else []) @
     (if missing_number (stepCount payload) then [''Missing or invalid stepCount''] else []) @
     (if missing_number (timestamp payload) then [''Missing or invalid timestamp''] else []) @
     (if missing_string (signature payload) then [''Missing or invalid signature''] else [])"

definition range_errors :: "'f message \<Rightarrow> string list" where
  "range_errors payload =
     (case stepCount payload of
        Some n \<Rightarrow> if n \<noteq> 0 \<and> (n < 0 \<or> n > 100000)
                  then [''Step count out of range (0-100000)''] else []
      | None \<Rightarrow> [])"

definition window_errors :: "int \<Rightarrow> 'f message \<Rightarrow> string list" where
  "window_errors now payload =
     (case timestamp payload of
        Some t \<Rightarrow> if t \<noteq> 0
                  then (if t > now + maxFuture
                        then [''Timestamp is too far in the future''] else []) @
                       (if t < now - maxAge
                        then [''Timestamp is too old (max 7 days)''] else [])
                  else []
      | None \<Rightarrow> [])"

definition battery_errors :: "'f message \<Rightarrow> string list" where
  "battery_errors payload =
     (case batteryPercent payload of
        Some b \<Rightarrow> if b < 0 \<or> b > 100 then [''Battery percent out of range (0-100)''] else []
      | None \<Rightarrow> [])"

definition validatePayload :: "int \<Rightarrow> 'f message \<Rightarrow> validation" where
  "validatePayload now payload =
     (let errs = required_errors payload @ range_errors payload @ window_errors now payload
                 @ battery_errors payload
      in \<lparr> valid = (errs = []), errors = errs \<rparr>)"

subsection \<open>Server: frames, the chain client, the handlers\<close>

record registration =
  reg_txDigest :: string
  reg_deviceObjectId :: "string option"

text \<open>The chain client \<open>suiClient\<close>; each operation either returns or throws.\<close>

record chain =
  chain_registerDevice :: "string \<Rightarrow> string \<Rightarrow> js_error + registration"
  chain_submitStepData :: "string \<Rightarrow> int \<Rightarrow> int list \<Rightarrow> string list \<Rightarrow> js_error + string"

text \<open>
  The frames the server sends. \<open>step_data_success\<close> carries \<open>stepCount\<close>; its \<open>dataId\<close> is
  the promise that the un-awaited \<open>storeStepData\<close> returned, and \<open>verified\<close> is \<open>true\<close>.
\<close>

datatype reply =
    welcome_frame int
  | register_success "device option" "registration option"
  | register_failure string
  | auth_success string
  | auth_failure string
  | step_data_success int
  | step_data_failure string
  | pong int
  | pet_frame string
  | error_frame string

definition handleRegister ::
  "chain option \<Rightarrow> int \<Rightarrow> 'f message \<Rightarrow> store \<Rightarrow> store \<times> reply" where
  "handleRegister suiClient now msg s =
     (if missing_string (deviceId msg) \<or> missing_string (publicKey msg)
      then (s, register_failure ''Missing deviceId or publicKey'')
      else
        (case (deviceId msg, publicKey msg) of
           (Some d, Some pk) \<Rightarrow>
             let (s', device) = registerDevice now d pk s;
                 blockchainResult =
                   (case suiClient of
                      None \<Rightarrow> None
                    | Some c \<Rightarrow> (case chain_registerDevice c d pk of
                                   Inl e \<Rightarrow> None
                                 | Inr r \<Rightarrow> Some r))
             in (s', register_success device blockchainResult)
         | _ \<Rightarrow> (s, register_failure ''Missing deviceId or publicKey'')))"

definition handleAuthenticate ::
  "int \<Rightarrow> nat \<Rightarrow> 'f message \<Rightarrow> store \<Rightarrow> store \<times> reply \<times> bool" where
  "handleAuthenticate now ws msg s =
     (case deviceId msg of
        None \<Rightarrow> (s, auth_failure ''Missing deviceId'', False)
      | Some d \<Rightarrow>
          if d = [] then (s, auth_failure ''Missing deviceId'', False)
          else (case getDevice s d of
                  None \<Rightarrow> (s, auth_failure ''Device not registered'', False)
                | Some device \<Rightarrow> (registerConnection now d ws s, auth_success d, True)))"

text \<open>The object that \<open>handleStepData\<close> builds for verification, in the order it lists the keys.\<close>

definition opt_json :: "('a \<Rightarrow> 'f json) \<Rightarrow> 'a option \<Rightarrow> 'f json" where
  "opt_json f x = (case x of None \<Rightarrow> JUndefined | Some v \<Rightarrow> f v)"

definition payload_object :: "'f message \<Rightarrow> (string \<times> 'f json) list" where
  "payload_object p =
     [(''deviceId'', opt_json JStr (deviceId p)),
      (''stepCount'', opt_json JNum (stepCount p)),
      (''timestamp'', opt_json JNum (timestamp p)),
      (''firmwareVersion'', opt_json JNum (firmwareVersion p)),
      (''batteryPercent'', opt_json JNum (batteryPercent p)),
      (''rawAccSamples'', opt_json samples_json (rawAccSamples p))]"

definition with_defaults :: "'f message \<Rightarrow> 'f message" where
  "with_defaults msg =
     msg\<lparr> firmwareVersion := Some (or_100 (firmwareVersion msg)),
          batteryPercent := Some (or_100 (batteryPercent msg)),
          rawAccSamples := Some (case rawAccSamples msg of None \<Rightarrow> [] | Some r \<Rightarrow> r) \<rparr>"

fun join_with :: "string \<Rightarrow> string list \<Rightarrow> string" where
  "join_with sep [] = []"
| "join_with sep [x] = x"
| "join_with sep (x # y # ys) = x @ sep @ join_with sep (y # ys)"

text \<open>
  Every \<open>throw\<close> of the body ends in the \<open>catch\<close>, which sends the failure frame. The call
  of \<open>storeStepData\<close> is not awaited: its \<open>INSERT\<close> and \<open>UPDATE\<close> are issued and the handler
  goes on with the promise in \<open>dataId\<close>. That promise is rejected after the two statements
  (see \<open>storeStepData\<close>) and nothing handles the rejection; what Node does with it (a
  warning, or from version 15 on the end of the process) is outside the model, and the two
  tables, which are in the database file, keep what was written. \<open>DeviceManager\<close> has no
  method \<open>updateFirmwareVersion\<close>, so the call made for a non-zero \<open>firmwareVersion\<close> throws
  a \<open>TypeError\<close>, after the row has been written. Once validation has passed, \<open>stepCount\<close>,
  \<open>timestamp\<close> and \<open>signature\<close> are present.
\<close>

definition handleStepData ::
  "'f runtime \<Rightarrow> int \<Rightarrow> 'f message \<Rightarrow> string option \<Rightarrow> store \<Rightarrow> store \<times> reply" where
  "handleStepData rt now msg authenticatedDeviceId s =
     (case deviceId msg of
        None \<Rightarrow> (s, step_data_failure ''Device ID mismatch'')
      | Some d \<Rightarrow>
          if authenticatedDeviceId \<noteq> Some d then (s, step_data_failure ''Device ID mismatch'')
          else
            (case getDevice s d of
               None \<Rightarrow> (s, step_data_failure ''Device not found'')
             | Some device \<Rightarrow>
                 let payload = with_defaults msg;
                     validation = validatePayload now payload
                 in if \<not> valid validation
                    then (s, step_data_failure
                              (''Validation failed: '' @ join_with '', '' (errors validation)))
                    else
                      (case (stepCount msg, timestamp msg, signature msg) of
                         (Some n, Some t, Some sg) \<Rightarrow>
                           if \<not> verifySignature rt (payload_object payload) sg (public_key device)
                           then (s, step_data_failure ''Invalid signature'')
                           else
                             let (s', dataId) =
                                   storeStepData (number_toString rt) now d
                                     \<lparr> f_stepCount = n, f_timestamp = t,
                                       f_rawAccSamples = rawAccSamples msg,
                                       f_batteryPercent = batteryPercent msg,
                                       f_signature = sg, f_verified = True \<rparr> s
                             in if \<not> missing_number (firmwareVersion msg)
                                then (s', step_data_failure
                                       ''deviceManager.updateFirmwareVersion is not a function'')
                                else (s', step_data_success n)
                       | _ \<Rightarrow> (s, step_data_failure ''Invalid signature''))))"

text \<open>
  The state of one connection is the two variables of its closure. The handlers for the
  pet messages are a parameter; they use neither the device store nor the connection state.
\<close>

record session =
  session_deviceId :: "string option"
  authenticated :: bool

definition new_session :: session where
  "new_session = \<lparr> session_deviceId = None, authenticated = False \<rparr>"

definition pet_message_types :: "string list" where
  "pet_message_types = [''getPet'', ''updatePet'', ''claimResources'', ''feedPet'', ''playWithPet'']"

definition on_message ::
  "'f runtime \<Rightarrow> chain option \<Rightarrow> ('f message \<Rightarrow> string option \<Rightarrow> reply list)
     \<Rightarrow> int \<Rightarrow> nat \<Rightarrow> 'f message \<Rightarrow> store \<times> session \<Rightarrow> (store \<times> session) \<times> reply list" where
  "on_message rt suiClient pet_handlers now ws msg st =
     (let s = fst st; sess = snd st in
      if msg_type msg = ''register'' then
        (let (s', f) = handleRegister suiClient now msg s in ((s', sess), [f]))
      else if msg_type msg = ''authenticate'' then
        (let (s', f, success) = handleAuthenticate now ws msg s
         in ((s', if success
                  then sess\<lparr> session_deviceId := deviceId msg, authenticated := True \<rparr>
                  else sess), [f]))
      else if msg_type msg = ''step_data'' then
        (if \<not> authenticated sess then ((s, sess), [error_frame ''Not authenticated''])
         else (let (s', f) = handleStepData rt now msg (session_deviceId sess) s
               in ((s', sess), [f])))
      else if msg_type msg = ''ping'' then ((s, sess), [pong now])
      else if msg_type msg \<in> set pet_message_types then
        (if \<not> authenticated sess then ((s, sess), [error_frame ''Not authenticated''])
         else ((s, sess), pet_handlers msg (session_deviceId sess)))
      else ((s, sess), [error_frame ''Unknown message type'']))"

subsection \<open>handleStepData: the checks before a submission is stored\<close>

text \<open>The checks a submission has to pass, in the order the handler makes them.\<close>

definition accepted :: "'f runtime \<Rightarrow> int \<Rightarrow> 'f message \<Rightarrow> string option \<Rightarrow> store \<Rightarrow> bool" where
  "accepted rt now msg sid s =
     (case deviceId msg of
        None \<Rightarrow> False
      | Some d \<Rightarrow>
          sid = Some d \<and>
          (case getDevice s d of
             None \<Rightarrow> False
           | Some device \<Rightarrow>
               valid (validatePayload now (with_defaults msg)) \<and>
               (case signature msg of
                  None \<Rightarrow> False
                | Some sg \<Rightarrow> verifySignature rt (payload_object (with_defaults msg)) sg
                               (public_key device))))"

subsection \<open>Messages to run the handlers on\<close>

text \<open>
  A submission of device \<open>d1\<close>: 100 steps and one sample. The signatures are those of
  \<open>stub_runtime\<close> for the key \<open>0x2a\<close>: \<open>0x53\<close> is the digest of the payload with
  \<open>firmwareVersion\<close> 100 and \<open>batteryPercent\<close> 85, \<open>0x77\<close> with 100 and 100, \<open>0x16\<close> with
  100 and 0.
\<close>

definition step_msg :: "int \<Rightarrow> int option \<Rightarrow> int option \<Rightarrow> string \<Rightarrow> string message" where
  "step_msg t fw battery sg =
     \<lparr> msg_type = ''step_data'', deviceId = Some ''d1'', publicKey = None,
       stepCount = Some 100, timestamp = Some t, batteryPercent = battery,
       rawAccSamples = Some [[''1.5'', ''2.5'', ''3.5'']],
       firmwareVersion = fw, signature = Some sg \<rparr>"

definition resend_msg :: "string message" where
  "resend_msg = step_msg 1699999940000 None (Some 85) ''0x532a''"

definition low_msg :: "string message" where
  "low_msg = step_msg 1699999940000 None None ''0x772a''"

definition zero_msg :: "string message" where
  "zero_msg = step_msg 1699999940000 (Some 100) (Some 0) ''0x162a''"






definition auth_msg :: "string option \<Rightarrow> string message" where
  "auth_msg d = \<lparr> msg_type = ''authenticate'', deviceId = d, publicKey = None,
      stepCount = None, timestamp = None, batteryPercent = None, rawAccSamples = None,
      firmwareVersion = None, signature = None \<rparr>"

definition register_msg :: "string \<Rightarrow> string \<Rightarrow> string message" where
  "register_msg d pk = \<lparr> msg_type = ''register'', deviceId = Some d, publicKey = Some pk,
      stepCount = None, timestamp = None, batteryPercent = None, rawAccSamples = None,
      firmwareVersion = None, signature = None \<rparr>"

subsection \<open>submitBatchToBlockchain\<close>

text \<open>
  \<open>getPendingStepData\<close> and \<open>getDevice\<close> are \<open>async\<close> methods, and this function calls them
  without \<open>await\<close>: the variable then holds the promise, not the rows. A promise has no
  \<open>length\<close> and no \<open>sui_device_object_id\<close> (both read as \<open>undefined\<close>), and \<open>for ... of\<close>
  over a promise throws a \<open>TypeError\<close>. \<open>suiClient.submitStepData\<close> is awaited. The rows
  are grouped in an object keyed by device id; a device id that names a property of
  \<open>Object.prototype\<close> is outside this model of the grouping.
\<close>

datatype 'a held = Promise 'a | Value 'a

definition length_of :: "'a list held \<Rightarrow> nat option" where
  "length_of v = (case v of Promise p \<Rightarrow> None | Value xs \<Rightarrow> Some (length xs))"

definition for_of :: "string \<Rightarrow> 'a list held \<Rightarrow> js_error + 'a list" where
  "for_of name v =
     (case v of Promise p \<Rightarrow> Inl (TypeError (name @ '' is not iterable'')) | Value xs \<Rightarrow> Inr xs)"

definition object_id_of :: "device option held \<Rightarrow> js_error + string option" where
  "object_id_of v =
     (case v of
        Promise p \<Rightarrow> Inr None
      | Value None \<Rightarrow> Inl (TypeError ''Cannot read properties of undefined'')
      | Value (Some d) \<Rightarrow> Inr (sui_device_object_id d))"

record batch_result =
  br_deviceId :: string
  br_success :: bool
  br_totalSteps :: "int option"
  br_recordCount :: "nat option"
  br_txDigest :: "string option"
  br_error :: "string option"

record chain_call =
  call_deviceObjectId :: string
  call_totalSteps :: int
  call_timestamps :: "int list"
  call_signatures :: "string list"

definition group_by_device :: "step_row list \<Rightarrow> (string \<times> step_row list) list" where
  "group_by_device pending =
     foldl (\<lambda>byDevice data.
              js_set byDevice (sd_device_id data)
                ((case map_of byDevice (sd_device_id data) of None \<Rightarrow> [] | Some l \<Rightarrow> l) @ [data]))
           [] pending"

fun submit_each ::
  "chain \<Rightarrow> (string \<times> step_row list) list \<Rightarrow> store \<Rightarrow> batch_result list \<Rightarrow> chain_call list
     \<Rightarrow> store \<times> batch_result list \<times> chain_call list" where
  "submit_each c [] s results calls = (s, results, calls)"
| "submit_each c ((dev, dataList) # rest) s results calls =
     (case object_id_of (Promise (getDevice s dev)) of
        Inl e \<Rightarrow>
          submit_each c rest s
            (results @ [\<lparr> br_deviceId = dev, br_success = False, br_totalSteps = None,
                           br_recordCount = None, br_txDigest = None,
                           br_error = Some (error_message e) \<rparr>]) calls
      | Inr objectId \<Rightarrow>
          if objectId = None \<or> objectId = Some [] then submit_each c rest s results calls
          else
            (let totalSteps = foldl (\<lambda>sum d. sum + sd_step_count d) 0 dataList;
                 timestamps = map sd_timestamp dataList;
                 signatures = map sd_signature dataList;
                 call = \<lparr> call_deviceObjectId = (case objectId of Some x \<Rightarrow> x | None \<Rightarrow> []),
                          call_totalSteps = totalSteps, call_timestamps = timestamps,
                          call_signatures = signatures \<rparr>
             in case chain_submitStepData c (call_deviceObjectId call) totalSteps timestamps
                       signatures of
                  Inl e \<Rightarrow>
                    submit_each c rest s
                      (results @ [\<lparr> br_deviceId = dev, br_success = False,
                                     br_totalSteps = None, br_recordCount = None,
                                     br_txDigest = None,
                                     br_error = Some (error_message e) \<rparr>]) (calls @ [call])
                | Inr txDigest \<Rightarrow>
                    submit_each c rest (markAsSubmitted (map row_id dataList) txDigest s)
                      (results @ [\<lparr> br_deviceId = dev, br_success = True,
                                     br_totalSteps = Some totalSteps,
                                     br_recordCount = Some (length dataList),
                                     br_txDigest = Some txDigest, br_error = None \<rparr>])
                      (calls @ [call])))"

definition submitBatchToBlockchain ::
  "chain option \<Rightarrow> store \<Rightarrow> (js_error + batch_result list) \<times> store \<times> chain_call list" where
  "submitBatchToBlockchain suiClient s =
     (case suiClient of
        None \<Rightarrow> (Inr [], s, [])
      | Some c \<Rightarrow>
          (let pending = Promise (getPendingStepData None s) in
           if length_of pending = Some 0 then (Inr [], s, [])
           else
             (case for_of ''pending'' pending of
                Inl e \<Rightarrow> (Inl e, s, [])
              | Inr rows \<Rightarrow>
                  (let (s', results, calls) = submit_each c (group_by_device rows) s [] []
                   in (Inr results, s', calls)))))"

text \<open>A chain client whose calls all succeed.\<close>

definition willing_chain :: chain where
  "willing_chain =
     \<lparr> chain_registerDevice = (\<lambda>d pk. Inr \<lparr> reg_txDigest = ''tx_'' @ d,
                                            reg_deviceObjectId = Some (''0xobj_'' @ d) \<rparr>),
       chain_submitStepData = (\<lambda>obj steps ts sigs. Inr (''tx_'' @ obj)) \<rparr>"

subsection \<open>PetManager\<close>

text \<open>
  One row of \<open>pets\<close>. A column that holds \<open>NULL\<close> is \<open>None\<close>; JavaScript reads it as \<open>null\<close>,
  which counts as 0 in arithmetic and in comparisons. \<open>last_fed_at\<close> and \<open>last_played_at\<close>
  hold what \<open>CURRENT_TIMESTAMP\<close> gave, the UTC time in whole seconds, kept here as the
  seconds since the epoch. The schema's comment on \<open>happiness\<close>, \<open>hunger\<close> and \<open>health\<close> is
  \<open>Status (0-100)\<close>. The table \<open>pet_events\<close>, which is only written, is left out.
\<close>

record pet =
  pet_device_id :: string
  pet_id :: string
  pet_object_id :: "string option"
  level :: "int option"
  experience :: "int option"
  total_steps_fed :: "int option"
  happiness :: "int option"
  hunger :: "int option"
  health :: "int option"
  food :: "int option"
  energy :: "int option"
  last_fed_at :: int
  last_played_at :: int

definition num :: "int option \<Rightarrow> int" where
  "num x = (case x of None \<Rightarrow> 0 | Some v \<Rightarrow> v)"

text \<open>The row that \<open>getOrCreatePet\<close> inserts: the column defaults.\<close>

definition new_pet :: "string \<Rightarrow> string \<Rightarrow> int \<Rightarrow> pet" where
  "new_pet devId petId now =
     \<lparr> pet_device_id = devId, pet_id = petId, pet_object_id = None,
       level = Some 0, experience = Some 0, total_steps_fed = Some 0, happiness = Some 50,
       hunger = Some 50, health = Some 100, food = Some 5, energy = Some 5,
       last_fed_at = now div 1000, last_played_at = now div 1000 \<rparr>"

definition getPetByDeviceId :: "pet list \<Rightarrow> string \<Rightarrow> pet option" where
  "getPetByDeviceId table devId = find (\<lambda>p. pet_device_id p = devId) table"

definition getPetByPetId :: "pet list \<Rightarrow> string \<Rightarrow> pet option" where
  "getPetByPetId table petId = find (\<lambda>p. pet_id p = petId) table"

text \<open>\<open>UPDATE pets SET ... WHERE pet_id = ?\<close> changes the rows with that pet id.\<close>

definition update_pet :: "string \<Rightarrow> (pet \<Rightarrow> pet) \<Rightarrow> pet list \<Rightarrow> pet list" where
  "update_pet petId f table = map (\<lambda>p. if pet_id p = petId then f p else p) table"

text \<open>
  The argument of \<open>updatePetStats\<close>; a property that the caller left out is \<open>undefined\<close>, here
  \<open>None\<close>. The function hands the eight values to the statement as they are. better-sqlite3
  is not part of the repository, and what it does with a parameter that is \<open>undefined\<close> is
  a parameter of the model: it refuses the statement with a \<open>TypeError\<close> before anything is
  written, or it binds \<open>NULL\<close>.
\<close>

datatype sql_driver = Refuses_undefined | Binds_null

record pet_stats =
  st_happiness :: "int option"
  st_hunger :: "int option"
  st_health :: "int option"
  st_experience :: "int option"
  st_total_steps_fed :: "int option"
  st_level :: "int option"
  st_food :: "int option"
  st_energy :: "int option"

definition updatePetStats ::
  "sql_driver \<Rightarrow> string \<Rightarrow> pet_stats \<Rightarrow> pet list \<Rightarrow> js_error + pet list" where
  "updatePetStats drv petId stats table =
     (if drv = Refuses_undefined
         \<and> None \<in> set [st_happiness stats, st_hunger stats, st_health stats, st_experience stats,
                        st_total_steps_fed stats, st_level stats, st_food stats, st_energy stats]
      then Inl (TypeError ''SQLite3 can only bind numbers, strings, bigints, buffers, and null'')
      else Inr (update_pet petId
             (\<lambda>p. p\<lparr> happiness := st_happiness stats, hunger := st_hunger stats,
                     health := st_health stats, experience := st_experience stats,
                     total_steps_fed := st_total_steps_fed stats, level := st_level stats,
                     food := st_food stats, energy := st_energy stats \<rparr>) table))"

text \<open>\<open>feedPetLocal\<close> returns \<open>null\<close>, writing nothing, when there is no such pet.\<close>

definition feedPetLocal :: "int \<Rightarrow> string \<Rightarrow> pet list \<Rightarrow> js_error + pet list" where
  "feedPetLocal now petId table =
     (case getPetByPetId table petId of
        None \<Rightarrow> Inr table
      | Some pet \<Rightarrow>
          if num (food pet) \<le> 0 then Inl (Error ''No food available'')
          else
            (let newFood = num (food pet) - 1;
                 newHunger = min 100 (num (hunger pet) + 25);
                 newHappiness = min 100 (num (happiness pet) + 5);
                 newExperience = num (experience pet) + 10;
                 newLevel =
                   (if newExperience \<ge> 5000 \<and> num (level pet) < 4 then Some 4
                    else if newExperience \<ge> 2000 \<and> num (level pet) < 3 then Some 3
                    else if newExperience \<ge> 500 \<and> num (level pet) < 2 then Some 2
                    else if newExperience \<ge> 100 \<and> num (level pet) < 1 then Some 1
                    else level pet)
             in Inr (update_pet petId
                  (\<lambda>p. p\<lparr> food := Some newFood, hunger := Some newHunger,
                          happiness := Some newHappiness, experience := Some newExperience,
                          level := newLevel, last_fed_at := now div 1000 \<rparr>) table)))"

definition playWithPetLocal :: "int \<Rightarrow> string \<Rightarrow> pet list \<Rightarrow> js_error + pet list" where
  "playWithPetLocal now petId table =
     (case getPetByPetId table petId of
        None \<Rightarrow> Inr table
      | Some pet \<Rightarrow>
          if num (energy pet) \<le> 0 then Inl (Error ''No energy available'')
          else
            (let newEnergy = num (energy pet) - 1;
                 newHappiness = min 100 (num (happiness pet) + 15);
                 newHealth = min 100 (num (health pet) + 3);
                 newExperience = num (experience pet) + 5
             in Inr (update_pet petId
                  (\<lambda>p. p\<lparr> energy := Some newEnergy, happiness := Some newHappiness,
                          health := Some newHealth, experience := Some newExperience,
                          last_played_at := now div 1000 \<rparr>) table)))"

text \<open>
  \<open>new Date(pet.last_fed_at)\<close> reads the column's text, which names no time zone, as local
  time: \<open>getTime()\<close> is the stored UTC second minus \<open>zone\<close>, the offset of the server's local
  time from UTC in milliseconds (taken as constant).
\<close>

definition updateTimeBasedStats :: "int \<Rightarrow> int \<Rightarrow> string \<Rightarrow> pet list \<Rightarrow> pet list" where
  "updateTimeBasedStats zone now petId table =
     (case getPetByPetId table petId of
        None \<Rightarrow> table
      | Some pet \<Rightarrow>
          (let timeSinceFed = now - (1000 * last_fed_at pet - zone);
               timeSincePlayed = now - (1000 * last_played_at pet - zone);
               newHunger = (if timeSinceFed > 3600000
                            then Some (max 0 (num (hunger pet) - timeSinceFed div 3600000))
                            else hunger pet);
               newHappiness = (if timeSincePlayed > 7200000
                               then Some (max 0 (num (happiness pet) - timeSincePlayed div 7200000))
                               else happiness pet);
               newHealth = (if num newHunger < 20 \<or> num newHappiness < 20
                            then Some (max 0 (num (health pet) - 1))
                            else if num newHunger > 80 \<and> num newHappiness > 80
                            then Some (min 100 (num (health pet) + 1))
                            else health pet)
           in if newHunger \<noteq> hunger pet \<or> newHappiness \<noteq> happiness pet \<or> newHealth \<noteq> health pet
              then update_pet petId
                     (\<lambda>p. p\<lparr> hunger := newHunger, happiness := newHappiness,
                             health := newHealth \<rparr>) table
              else table))"

text \<open>The range that the schema gives for the three statistics.\<close>

definition bounded :: "pet \<Rightarrow> bool" where
  "bounded p = (0 \<le> num (happiness p) \<and> num (happiness p) \<le> 100 \<and> 0 \<le> num (hunger p)
                \<and> num (hunger p) \<le> 100 \<and> 0 \<le> num (health p) \<and> num (health p) \<le> 100)"

subsection \<open>Server: the pet handlers\<close>

text \<open>
  The pet operations of the chain client: \<open>feedPet\<close> and \<open>playWithPet\<close> return a result with
  \<open>success: true\<close> or throw; \<open>getPet\<close> returns the pet object's fields as numbers, or \<open>null\<close>,
  or throws.
\<close>

record onchain_pet =
  on_level :: int
  on_experience :: int
  on_happiness :: int
  on_hunger :: int
  on_health :: int
  on_food :: int
  on_energy :: int

record pet_chain =
  chain_feedPet :: "string \<Rightarrow> js_error + string"
  chain_playWithPet :: "string \<Rightarrow> js_error + string"
  chain_getPet :: "string \<Rightarrow> js_error + onchain_pet option"

datatype pet_reply =
    pet_updated string
  | pet_fed pet bool
  | pet_played "pet option"
  | pet_error string

text \<open>The fields of an \<open>updatePet\<close> message that the handler reads.\<close>

record pet_update =
  u_happiness :: "int option"
  u_hunger :: "int option"
  u_health :: "int option"
  u_experience :: "int option"
  u_total_steps_fed :: "int option"
  u_level :: "int option"

text \<open>
  Each handler is given the device id of the connection. \<open>handleUpdatePet\<close> passes six
  values on; \<open>food\<close> and \<open>energy\<close> are not among them.
\<close>

definition handleUpdatePet ::
  "sql_driver \<Rightarrow> pet_update \<Rightarrow> string option \<Rightarrow> pet list \<Rightarrow> pet list \<times> pet_reply" where
  "handleUpdatePet drv message devId table =
     (case devId of
        None \<Rightarrow> (table, pet_error ''Not authenticated'')
      | Some d \<Rightarrow>
          if d = [] then (table, pet_error ''Not authenticated'')
          else
            (case getPetByDeviceId table d of
               None \<Rightarrow> (table, pet_error ''Pet not found'')
             | Some pet \<Rightarrow>
                 (case updatePetStats drv (pet_id pet)
                         \<lparr> st_happiness = u_happiness message, st_hunger = u_hunger message,
                           st_health = u_health message, st_experience = u_experience message,
                           st_total_steps_fed = u_total_steps_fed message,
                           st_level = u_level message, st_food = None, st_energy = None \<rparr>
                         table of
                    Inl e \<Rightarrow> (table, pet_error (error_message e))
                  | Inr table' \<Rightarrow> (table', pet_updated (pet_id pet)))))"

text \<open>
  The object that \<open>handleFeedPet\<close> and \<open>handlePlayWithPet\<close> build from the pet on chain; it has
  no \<open>total_steps_fed\<close>.
\<close>

definition onchain_stats :: "onchain_pet \<Rightarrow> pet_stats" where
  "onchain_stats onchainPet =
     \<lparr> st_happiness = Some (on_happiness onchainPet), st_hunger = Some (on_hunger onchainPet),
       st_health = Some (on_health onchainPet), st_experience = Some (on_experience onchainPet),
       st_total_steps_fed = None, st_level = Some (on_level onchainPet),
       st_food = Some (on_food onchainPet), st_energy = Some (on_energy onchainPet) \<rparr>"

text \<open>
  With a chain client and a pet that has an object id, the pet is fed on chain, its state
  there is fetched and written through \<open>updatePetStats\<close>; whatever throws on that way ends
  in the inner \<open>catch\<close>, which feeds locally. Without them the pet is fed locally. The reply
  carries the row as it is read afterwards.
\<close>

definition handleFeedPet ::
  "sql_driver \<Rightarrow> pet_chain option \<Rightarrow> int \<Rightarrow> string option \<Rightarrow> pet list
     \<Rightarrow> pet list \<times> pet_reply" where
  "handleFeedPet drv suiClient now devId table =
     (case devId of
        None \<Rightarrow> (table, pet_error ''Not authenticated'')
      | Some d \<Rightarrow>
          if d = [] then (table, pet_error ''Not authenticated'')
          else
            (case getPetByDeviceId table d of
               None \<Rightarrow> (table, pet_error ''Pet not found'')
             | Some pet \<Rightarrow>
                 if num (food pet) \<le> 0 then (table, pet_error ''No food available'')
                 else
                   (let local = feedPetLocal now (pet_id pet) table;
                        written =
                          (case (suiClient, pet_object_id pet) of
                             (Some c, Some objectId) \<Rightarrow>
                               if objectId = [] then local
                               else
                                 (case chain_feedPet c objectId of
                                    Inl e \<Rightarrow> local
                                  | Inr tx \<Rightarrow>
                                      (case chain_getPet c objectId of
                                         Inr (Some onchainPet) \<Rightarrow>
                                           (case updatePetStats drv (pet_id pet)
                                                   (onchain_stats onchainPet) table of
                                              Inl e \<Rightarrow> local
                                            | Inr table' \<Rightarrow> Inr table')
                                       | _ \<Rightarrow> local))
                           | _ \<Rightarrow> local)
                    in case written of
                         Inl e \<Rightarrow> (table, pet_error (error_message e))
                       | Inr table' \<Rightarrow>
                           (case getPetByDeviceId table' d of
                              None \<Rightarrow> (table', pet_error ''Cannot read properties of undefined'')
                            | Some updatedPet \<Rightarrow>
                                (table', pet_fed updatedPet
                                           (num (level updatedPet) > num (level pet)))))))"

definition handlePlayWithPet ::
  "sql_driver \<Rightarrow> pet_chain option \<Rightarrow> int \<Rightarrow> string option \<Rightarrow> pet list
     \<Rightarrow> pet list \<times> pet_reply" where
  "handlePlayWithPet drv suiClient now devId table =
     (case devId of
        None \<Rightarrow> (table, pet_error ''Not authenticated'')
      | Some d \<Rightarrow>
          if d = [] then (table, pet_error ''Not authenticated'')
          else
            (case getPetByDeviceId table d of
               None \<Rightarrow> (table, pet_error ''Pet not found'')
             | Some pet \<Rightarrow>
                 if num (energy pet) \<le> 0 then (table, pet_error ''No energy available'')
                 else
                   (let local = playWithPetLocal now (pet_id pet) table;
                        written =
                          (case (suiClient, pet_object_id pet) of
                             (Some c, Some objectId) \<Rightarrow>
                               if objectId = [] then local
                               else
                                 (case chain_playWithPet c objectId of
                                    Inl e \<Rightarrow> local
                                  | Inr tx \<Rightarrow>
                                      (case chain_getPet c objectId of
                                         Inr (Some onchainPet) \<Rightarrow>
                                           (case updatePetStats drv (pet_id pet)
                                                   (onchain_stats onchainPet) table of
                                              Inl e \<Rightarrow> local
                                            | Inr table' \<Rightarrow> Inr table')
                                       | _ \<Rightarrow> local))
                           | _ \<Rightarrow> local)
                    in case written of
                         Inl e \<Rightarrow> (table, pet_error (error_message e))
                       | Inr table' \<Rightarrow> (table', pet_played (getPetByDeviceId table' d)))))"

subsection \<open>A pet table to run the handlers on\<close>

text \<open>
  The new pet of device \<open>d1\<close>, the same pet once it is on chain, an \<open>updatePet\<close> message with
  a happiness of 250 and a hunger of -20, and a chain client whose pet object holds a
  hunger of 250.
\<close>

definition one_pet :: "pet list" where
  "one_pet = [new_pet ''d1'' ''pet_d1'' 0]"

definition one_pet_on_chain :: "pet list" where
  "one_pet_on_chain = [(new_pet ''d1'' ''pet_d1'' 0)\<lparr> pet_object_id := Some ''0xpet1'' \<rparr>]"

definition wild_update :: pet_update where
  "wild_update =
     \<lparr> u_happiness = Some 250, u_hunger = Some (- 20), u_health = Some 100,
       u_experience = Some 0, u_total_steps_fed = Some 0, u_level = Some 0 \<rparr>"

definition wild_chain :: pet_chain where
  "wild_chain =
     \<lparr> chain_feedPet = (\<lambda>objectId. Inr ''tx_feed''),
       chain_playWithPet = (\<lambda>objectId. Inr ''tx_play''),
       chain_getPet = (\<lambda>objectId. Inr (Some
          \<lparr> on_level = 0, on_experience = 10, on_happiness = 55, on_hunger = 250,
            on_health = 100, on_food = 4, on_energy = 5 \<rparr>)) \<rparr>"

section \<open>Facts and claims\<close>

subsection \<open>Hexadecimal text\<close>









subsection \<open>Canonical JSON\<close>

lemma foldl_js_set_append:
  assumes "distinct ks" "set ks \<inter> fst ` set acc = {}"
    and "\<forall>k\<in>set ks. \<not> is_array_index k \<and> k \<noteq> ''__proto__''"
  shows "foldl (\<lambda>sorted key. js_set sorted key (g key)) acc ks = acc @ map (\<lambda>k. (k, g k)) ks"
  using assms
proof (induction ks arbitrary: acc)
  case Nil
  then show ?case by simp
next
  case (Cons k ks)
  have step: "js_set acc k (g k) = acc @ [(k, g k)]"
    using Cons.prems by (auto simp: js_set_def)
  have "set ks \<inter> fst ` set (acc @ [(k, g k)]) = {}"
    using Cons.prems by auto
  then show ?case
    using Cons.IH[of "acc @ [(k, g k)]"] Cons.prems step by simp
qed

lemma sortedObject_attribute_set:
  assumes "attribute_set X"
  shows "sortedObject X = map (\<lambda>k. (k, js_get X k)) (sort (Object_keys X))"
proof -
  have "distinct (sort (map fst X))"
    using assms by (simp add: attribute_set_def)
  moreover have "\<forall>k\<in>set (sort (map fst X)). \<not> is_array_index k \<and> k \<noteq> ''__proto__''"
    using assms by (auto simp: attribute_set_def list_all_iff)
  ultimately show ?thesis
    using foldl_js_set_append[of "sort (map fst X)" "[]" "js_get X"]
    by (simp add: sortedObject_def Object_keys_def)
qed

lemma js_get_mset:
  assumes "distinct (map fst X)" "mset Y = mset X"
  shows "js_get Y k = js_get X k"
proof -
  have m: "mset (map fst Y) = mset (map fst X)"
    using assms(2) by (metis mset_map)
  then have dY: "distinct (map fst Y)"
    using assms(1) by (metis mset_eq_imp_distinct_iff)
  have s: "set Y = set X"
    using assms(2) by (metis set_mset_mset)
  have "map_of Y k = map_of X k"
  proof (cases "map_of X k")
    case None
    then have "k \<notin> fst ` set X"
      by (simp add: map_of_eq_None_iff)
    then have "map_of Y k = None"
      using s by (simp add: map_of_eq_None_iff)
    then show ?thesis
      using None by simp
  next
    case (Some v)
    then have "(k, v) \<in> set X"
      by (rule map_of_SomeD)
    then have "map_of Y k = Some v"
      using s dY by simp
    then show ?thesis
      using Some by simp
  qed
  then show ?thesis
    by (simp add: js_get_def)
qed

lemma stringify_properties:
  "concat (map (\<lambda>(k, v). if v = JUndefined then [] else [quote k @ '':'' @ stringify fmt v])
             (map (\<lambda>k. (k, g k)) ks))
     = map (\<lambda>k. quote k @ '':'' @ stringify fmt (g k)) (filter (\<lambda>k. g k \<noteq> JUndefined) ks)"
  by (induction ks) auto

lemma buildCanonicalJSON_attribute_set:
  assumes "attribute_set X"
  shows "buildCanonicalJSON fmt X =
           ''{'' @ join_comma (map (\<lambda>k. quote k @ '':'' @ stringify fmt (js_get X k))
                     (filter (\<lambda>k. js_get X k \<noteq> JUndefined) (sort (Object_keys X)))) @ ''}''"
  by (simp add: buildCanonicalJSON_def sortedObject_attribute_set[OF assms] stringify_properties
      del: map_map)

lemma test_payload_canonical:
  "buildCanonicalJSON (\<lambda>x. x) test_payload =
     [CHR ''{'', CHR 0x22] @ ''batteryPercent'' @ [CHR 0x22] @ '':85,'' @
     [CHR 0x22] @ ''deviceId'' @ [CHR 0x22, CHR '':'', CHR 0x22] @ ''test_001'' @ [CHR 0x22] @ '','' @
     [CHR 0x22] @ ''firmwareVersion'' @ [CHR 0x22] @ '':100,'' @
     [CHR 0x22] @ ''rawAccSamples'' @ [CHR 0x22] @ '':[[1.1,2.2,3.3],[4.4,5.5,6.6]],'' @
     [CHR 0x22] @ ''stepCount'' @ [CHR 0x22] @ '':100,'' @
     [CHR 0x22] @ ''timestamp'' @ [CHR 0x22] @ '':1234567890}''"
  by code_simp

text \<open>
  Claim C6. For every object \<open>X\<close> (its keys are distinct) and every other insertion order
  \<open>Y\<close> of the same properties, \<open>buildCanonicalJSON\<close> returns the same text. When \<open>X\<close> is
  an attribute set, that text is an opening brace, then the properties of \<open>X\<close> whose value
  is not \<open>undefined\<close>, each as its quoted key, a colon and the text of its value, separated
  by commas and in ascending order of the keys as strings, then a closing brace. The
  function has no state, so two invocations on the same input agree.
\<close>

theorem canonical_json_order_independent:
  assumes "distinct (map fst X)" "mset Y = mset X"
  shows "buildCanonicalJSON fmt Y = buildCanonicalJSON fmt X
       \<and> (attribute_set X \<longrightarrow>
            buildCanonicalJSON fmt X =
              ''{'' @ join_comma (map (\<lambda>k. quote k @ '':'' @ stringify fmt (js_get X k))
                        (filter (\<lambda>k. js_get X k \<noteq> JUndefined) (sort (Object_keys X)))) @ ''}''
          \<and> sortedObject X = map (\<lambda>k. (k, js_get X k)) (sort (Object_keys X))
          \<and> sorted (Object_keys (sortedObject X)))"
proof -
  have m: "mset (map fst Y) = mset (map fst X)"
    using assms(2) by (metis mset_map)
  have keys: "sort (Object_keys Y) = sort (Object_keys X)"
    unfolding Object_keys_def using m by (metis properties_for_sort sorted_sort mset_sort)
  have get: "js_get Y = js_get X"
    using js_get_mset[OF assms] by blast
  have same: "sortedObject Y = sortedObject X"
    by (simp add: sortedObject_def keys get)
  have "sorted (Object_keys (sortedObject X))" if "attribute_set X"
    using sortedObject_attribute_set[OF that] by (simp add: Object_keys_def comp_def)
  then show ?thesis
    using same sortedObject_attribute_set[of X] buildCanonicalJSON_attribute_set[of X fmt]
    by (simp add: buildCanonicalJSON_def)
qed

theorem canonical_json_order_independent_witness:
  "distinct (map fst test_payload)
   \<and> mset (rev test_payload) = mset test_payload
   \<and> attribute_set test_payload
   \<and> buildCanonicalJSON (\<lambda>x. x) (rev test_payload) = buildCanonicalJSON (\<lambda>x. x) test_payload
   \<and> sort (Object_keys test_payload)
       = [''batteryPercent'', ''deviceId'', ''firmwareVersion'', ''rawAccSamples'', ''stepCount'',
          ''timestamp'']
   \<and> buildCanonicalJSON (\<lambda>x. x) test_payload =
        ''{'' @ join_comma (map (\<lambda>k. quote k @ '':'' @ stringify (\<lambda>x. x) (js_get test_payload k))
                  (filter (\<lambda>k. js_get test_payload k \<noteq> JUndefined)
                     (sort (Object_keys test_payload)))) @ ''}''
   \<and> buildCanonicalJSON (\<lambda>x. x) (rev test_payload) =
        [CHR ''{'', CHR 0x22] @ ''batteryPercent'' @ [CHR 0x22] @ '':85,'' @
        [CHR 0x22] @ ''deviceId'' @ [CHR 0x22, CHR '':'', CHR 0x22] @ ''test_001'' @ [CHR 0x22]
        @ '','' @ [CHR 0x22] @ ''firmwareVersion'' @ [CHR 0x22] @ '':100,'' @
        [CHR 0x22] @ ''rawAccSamples'' @ [CHR 0x22] @ '':[[1.1,2.2,3.3],[4.4,5.5,6.6]],'' @
        [CHR 0x22] @ ''stepCount'' @ [CHR 0x22] @ '':100,'' @
        [CHR 0x22] @ ''timestamp'' @ [CHR 0x22] @ '':1234567890}''
   \<and> sortedObject test_payload
       = map (\<lambda>k. (k, js_get test_payload k)) (sort (Object_keys test_payload))
   \<and> sorted (Object_keys (sortedObject test_payload))"
proof -
  have a: "attribute_set test_payload"
    by (simp add: attribute_set_def test_payload_def is_array_index_def)
  then have d: "distinct (map fst test_payload)"
    by (simp add: attribute_set_def)
  have m: "mset (rev test_payload) = mset test_payload"
    by simp
  have k: "sort (Object_keys test_payload)
       = [''batteryPercent'', ''deviceId'', ''firmwareVersion'', ''rawAccSamples'', ''stepCount'',
          ''timestamp'']"
    by code_simp
  note T = canonical_json_order_independent[OF d m, of "\<lambda>x. x"]
  have o: "buildCanonicalJSON (\<lambda>x. x) (rev test_payload)
             = buildCanonicalJSON (\<lambda>x. x) test_payload"
    using T by (rule conjunct1)
  have r: "buildCanonicalJSON (\<lambda>x. x) test_payload =
        ''{'' @ join_comma (map (\<lambda>k. quote k @ '':'' @ stringify (\<lambda>x. x) (js_get test_payload k))
                  (filter (\<lambda>k. js_get test_payload k \<noteq> JUndefined)
                     (sort (Object_keys test_payload)))) @ ''}''
      \<and> sortedObject test_payload
          = map (\<lambda>k. (k, js_get test_payload k)) (sort (Object_keys test_payload))
      \<and> sorted (Object_keys (sortedObject test_payload))"
    using conjunct2[OF T] a by (rule mp)
  note r1 = conjunct1[OF r] and r2 = conjunct1[OF conjunct2[OF r]]
    and r3 = conjunct2[OF conjunct2[OF r]]
  note t = trans[OF o test_payload_canonical]
  show ?thesis
    by (intro conjI) (rule d m a o k r1 t r2 r3)+
qed

subsection \<open>The canonical text of a submission\<close>

















lemma join_comma_Cons: "join_comma (x # xs) = x @ (if xs = [] then [] else '','' @ join_comma xs)"
  by (cases xs) simp_all







lemma payload_object_attribute_set: "attribute_set (payload_object p)"
  by (simp add: attribute_set_def payload_object_def is_array_index_def)

lemma sortedObject_payload_object:
  "sortedObject (payload_object p) =
     [(''batteryPercent'', opt_json JNum (batteryPercent p)),
      (''deviceId'', opt_json JStr (deviceId p)),
      (''firmwareVersion'', opt_json JNum (firmwareVersion p)),
      (''rawAccSamples'', opt_json samples_json (rawAccSamples p)),
      (''stepCount'', opt_json JNum (stepCount p)),
      (''timestamp'', opt_json JNum (timestamp p))]"
proof -
  have k: "sort (Object_keys (payload_object p)) =
             [''batteryPercent'', ''deviceId'', ''firmwareVersion'', ''rawAccSamples'',
              ''stepCount'', ''timestamp'']"
    by (simp add: Object_keys_def payload_object_def less_eq_char_def less_char_def)
  show ?thesis
    unfolding sortedObject_attribute_set[OF payload_object_attribute_set] k
    by (simp add: js_get_def payload_object_def)
qed






subsection \<open>Signature verification\<close>








subsection \<open>Pending records\<close>

lemma pending_after_mark:
  "getPendingStepData device_filter (markAsSubmitted dataIds txDigest s)
     = filter (\<lambda>r. row_id r \<notin> set dataIds) (getPendingStepData device_filter s)"
proof -
  let ?P = "\<lambda>r. \<not> sd_submitted_to_chain r \<and> sd_verified r
                  \<and> (case device_filter of None \<Rightarrow> True
                      | Some d \<Rightarrow> d = [] \<or> sd_device_id r = d)"
  let ?g = "\<lambda>r. if row_id r \<in> set dataIds
                 then r\<lparr> sd_submitted_to_chain := True, sd_tx_digest := Some txDigest \<rparr>
                 else r"
  have step: "filter ?P (map ?g rows) = filter (\<lambda>r. ?P r \<and> row_id r \<notin> set dataIds) rows"
    for rows
    by (induction rows) auto
  have "getPendingStepData device_filter (markAsSubmitted dataIds txDigest s)
          = sort_key sd_received_at (filter ?P (map ?g (step_data s)))"
    by (simp add: getPendingStepData_def markAsSubmitted_def Let_def)
  also have "\<dots> = sort_key sd_received_at
                     (filter (\<lambda>r. ?P r \<and> row_id r \<notin> set dataIds) (step_data s))"
    by (simp only: step)
  also have "\<dots> = filter (\<lambda>r. row_id r \<notin> set dataIds)
                     (sort_key sd_received_at (filter ?P (step_data s)))"
    by (simp add: filter_sort conj_commute)
  finally show ?thesis
    by (simp add: getPendingStepData_def)
qed

text \<open>
  Claim C3. After \<open>markAsSubmitted(dataIds, txDigest)\<close>, \<open>getPendingStepData\<close> returns no
  row whose id is in \<open>dataIds\<close>, whatever the device filter: it returns the rows it
  returned before, without those of \<open>dataIds\<close>. For every device filter it returns exactly
  the rows with \<open>verified = 1\<close> and \<open>submitted_to_chain = 0\<close> that the filter admits (every
  row when the filter is absent or the empty string, else the rows of that device), each
  once, in ascending order of \<open>received_at\<close>.
\<close>

theorem pending_excludes_marked:
  "(\<forall>r \<in> set (getPendingStepData device_filter (markAsSubmitted dataIds txDigest s)).
        row_id r \<notin> set dataIds)
   \<and> getPendingStepData device_filter (markAsSubmitted dataIds txDigest s)
       = filter (\<lambda>r. row_id r \<notin> set dataIds) (getPendingStepData device_filter s)
   \<and> mset (getPendingStepData device_filter s)
       = mset (filter (\<lambda>r. sd_verified r \<and> \<not> sd_submitted_to_chain r
                          \<and> (device_filter = None \<or> device_filter = Some []
                              \<or> device_filter = Some (sd_device_id r))) (step_data s))
   \<and> sorted (map sd_received_at (getPendingStepData device_filter s))"
proof -
  have a: "getPendingStepData device_filter (markAsSubmitted dataIds txDigest s)
       = filter (\<lambda>r. row_id r \<notin> set dataIds) (getPendingStepData device_filter s)"
    by (rule pending_after_mark)
  have b: "\<forall>r \<in> set (getPendingStepData device_filter (markAsSubmitted dataIds txDigest s)).
        row_id r \<notin> set dataIds"
    unfolding a by simp
  have "filter (\<lambda>r. \<not> sd_submitted_to_chain r \<and> sd_verified r
                  \<and> (case device_filter of None \<Rightarrow> True
                      | Some d \<Rightarrow> d = [] \<or> sd_device_id r = d)) (step_data s)
        = filter (\<lambda>r. sd_verified r \<and> \<not> sd_submitted_to_chain r
                          \<and> (device_filter = None \<or> device_filter = Some []
                              \<or> device_filter = Some (sd_device_id r))) (step_data s)"
    by (rule filter_cong) (auto split: option.splits)
  then have c: "mset (getPendingStepData device_filter s)
       = mset (filter (\<lambda>r. sd_verified r \<and> \<not> sd_submitted_to_chain r
                          \<and> (device_filter = None \<or> device_filter = Some []
                              \<or> device_filter = Some (sd_device_id r))) (step_data s))"
    by (simp only: getPendingStepData_def mset_sort)
  have d: "sorted (map sd_received_at (getPendingStepData device_filter s))"
    by (simp add: getPendingStepData_def)
  show ?thesis
    using a b c d by blast
qed

theorem pending_excludes_marked_witness:
  "map row_id (getPendingStepData None batch_store) = [1, 2, 3, 4]
   \<and> map row_id (getPendingStepData (Some ''d1'') batch_store) = [1, 2, 4]
   \<and> map row_id (getPendingStepData (Some ''d2'') batch_store) = [3]
   \<and> map row_id (getPendingStepData None (markAsSubmitted [1, 2] ''tx1'' batch_store)) = [3, 4]
   \<and> map row_id (getPendingStepData (Some ''d1'') (markAsSubmitted [1, 2] ''tx1'' batch_store))
       = [4]
   \<and> list_all (\<lambda>r. row_id r \<notin> set [1, 2])
        (getPendingStepData (Some ''d1'') (markAsSubmitted [1, 2] ''tx1'' batch_store))
   \<and> getPendingStepData (Some ''d1'') (markAsSubmitted [1, 2] ''tx1'' batch_store)
       = filter (\<lambda>r. row_id r \<notin> set [1, 2]) (getPendingStepData (Some ''d1'') batch_store)
   \<and> mset (getPendingStepData (Some ''d1'') batch_store)
       = mset (filter (\<lambda>r. sd_verified r \<and> \<not> sd_submitted_to_chain r
                          \<and> sd_device_id r = ''d1'') (step_data batch_store))
   \<and> sorted (map sd_received_at (getPendingStepData (Some ''d1'') batch_store))"
proof -
  have e: "map row_id (getPendingStepData None batch_store) = [1, 2, 3, 4]"
    "map row_id (getPendingStepData (Some ''d1'') batch_store) = [1, 2, 4]"
    "map row_id (getPendingStepData (Some ''d2'') batch_store) = [3]"
    "map row_id (getPendingStepData None (markAsSubmitted [1, 2] ''tx1'' batch_store)) = [3, 4]"
    "map row_id (getPendingStepData (Some ''d1'') (markAsSubmitted [1, 2] ''tx1'' batch_store))
       = [4]"
    by code_simp+
  note T = pending_excludes_marked[of "Some ''d1''" "[1, 2]" "''tx1''" batch_store]
  have a: "list_all (\<lambda>r. row_id r \<notin> set [1, 2])
        (getPendingStepData (Some ''d1'') (markAsSubmitted [1, 2] ''tx1'' batch_store))"
    unfolding list_all_iff using T by (rule conjunct1)
  have b: "getPendingStepData (Some ''d1'') (markAsSubmitted [1, 2] ''tx1'' batch_store)
       = filter (\<lambda>r. row_id r \<notin> set [1, 2]) (getPendingStepData (Some ''d1'') batch_store)"
    using T by (rule conjunct1[OF conjunct2])
  have p: "(\<lambda>r. sd_verified r \<and> \<not> sd_submitted_to_chain r
              \<and> (Some ''d1'' = None \<or> Some ''d1'' = Some [] \<or> Some ''d1'' = Some (sd_device_id r)))
        = (\<lambda>r. sd_verified r \<and> \<not> sd_submitted_to_chain r \<and> sd_device_id r = ''d1'')"
    by auto
  have c: "mset (getPendingStepData (Some ''d1'') batch_store)
       = mset (filter (\<lambda>r. sd_verified r \<and> \<not> sd_submitted_to_chain r
                          \<and> sd_device_id r = ''d1'') (step_data batch_store))"
    using conjunct1[OF conjunct2[OF conjunct2[OF T]]] unfolding p .
  have d: "sorted (map sd_received_at (getPendingStepData (Some ''d1'') batch_store))"
    using T by (rule conjunct2[OF conjunct2[OF conjunct2]])
  show ?thesis
    using e a b c d by (intro conjI)
qed

subsection \<open>handleStepData: when a submission is stored\<close>

lemma with_defaults_fields [simp]:
  "deviceId (with_defaults msg) = deviceId msg"
  "stepCount (with_defaults msg) = stepCount msg"
  "timestamp (with_defaults msg) = timestamp msg"
  "signature (with_defaults msg) = signature msg"
  "batteryPercent (with_defaults msg) = Some (or_100 (batteryPercent msg))"
  "firmwareVersion (with_defaults msg) = Some (or_100 (firmwareVersion msg))"
  by (simp_all add: with_defaults_def)

lemma validatePayload_present:
  assumes "valid (validatePayload now p)"
  shows "\<exists>n t sg. stepCount p = Some n \<and> timestamp p = Some t \<and> signature p = Some sg"
proof -
  have "required_errors p = []"
    using assms by (simp add: validatePayload_def Let_def)
  then have "\<not> missing_number (stepCount p)" "\<not> missing_number (timestamp p)"
    "\<not> missing_string (signature p)"
    by (auto simp: required_errors_def split: if_splits)
  then show ?thesis
    by (auto simp: missing_number_def missing_string_def)
qed

lemma handleStepData_rejected:
  assumes "\<not> accepted rt now msg sid s"
  shows "\<exists>e. handleStepData rt now msg sid s = (s, step_data_failure e)"
proof (cases "deviceId msg")
  case None
  then show ?thesis
    by (simp add: handleStepData_def)
next
  case (Some d)
  note d = this
  show ?thesis
  proof (cases "sid = Some d")
    case False
    then show ?thesis
      using d by (simp add: handleStepData_def)
  next
    case True
    note sid = this
    show ?thesis
    proof (cases "getDevice s d")
      case None
      then show ?thesis
        using d sid by (simp add: handleStepData_def)
    next
      case (Some device)
      note dev = this
      show ?thesis
      proof (cases "valid (validatePayload now (with_defaults msg))")
        case False
        then show ?thesis
          using d sid dev by (simp add: handleStepData_def Let_def)
      next
        case True
        from validatePayload_present[OF True] obtain n t sg where
          p: "stepCount msg = Some n" "timestamp msg = Some t" "signature msg = Some sg"
          by auto
        have "\<not> verifySignature rt (payload_object (with_defaults msg)) sg (public_key device)"
          using assms d sid dev True p by (simp add: accepted_def)
        then show ?thesis
          using d sid dev True p by (simp add: handleStepData_def Let_def)
      qed
    qed
  qed
qed

lemma handleStepData_invalid:
  assumes "deviceId msg = Some d" "sid = Some d" "getDevice s d = Some device"
    and "\<not> valid (validatePayload now (with_defaults msg))"
  shows "handleStepData rt now msg sid s =
           (s, step_data_failure (''Validation failed: '' @
                 join_with '', '' (errors (validatePayload now (with_defaults msg)))))"
  using assms by (simp add: handleStepData_def Let_def)

lemma handleStepData_accepted:
  assumes "accepted rt now msg sid s"
  shows "\<exists>d n t sg. deviceId msg = Some d \<and> stepCount msg = Some n \<and> timestamp msg = Some t
           \<and> signature msg = Some sg
           \<and> handleStepData rt now msg sid s =
               (fst (storeStepData (number_toString rt) now d
                       \<lparr> f_stepCount = n, f_timestamp = t, f_rawAccSamples = rawAccSamples msg,
                         f_batteryPercent = batteryPercent msg, f_signature = sg,
                         f_verified = True \<rparr> s),
                if \<not> missing_number (firmwareVersion msg)
                then step_data_failure ''deviceManager.updateFirmwareVersion is not a function''
                else step_data_success n)"
proof -
  from assms obtain d device sg where h: "deviceId msg = Some d" "sid = Some d"
      "getDevice s d = Some device" "valid (validatePayload now (with_defaults msg))"
      "signature msg = Some sg"
      "verifySignature rt (payload_object (with_defaults msg)) sg (public_key device)"
    by (auto simp: accepted_def split: option.splits)
  from validatePayload_present[OF h(4)] obtain n t where
    p: "stepCount msg = Some n" "timestamp msg = Some t"
    by auto
  show ?thesis
    using h p by (simp add: handleStepData_def Let_def split: prod.splits)
qed

lemma find_map_device:
  assumes "\<And>d. device_id (f d) = device_id d"
  shows "find (\<lambda>d. device_id d = x) (map f ds) = map_option f (find (\<lambda>d. device_id d = x) ds)"
  using assms by (induction ds) auto

lemma getDevice_storeStepData:
  "getDevice (fst (storeStepData fmt now d sf s)) x =
     map_option (\<lambda>dev. if device_id dev = d
                        then dev\<lparr> total_steps := total_steps dev + f_stepCount sf,
                                  last_seen := Some now \<rparr>
                        else dev) (getDevice s x)"
  by (simp add: getDevice_def storeStepData_def Let_def find_map_device)

lemma accepted_after_store:
  assumes "accepted rt now1 msg sid s" "valid (validatePayload now2 (with_defaults msg))"
  shows "accepted rt now2 msg sid (fst (storeStepData fmt now1 d sf s))"
  using assms
  by (auto simp: accepted_def getDevice_storeStepData split: option.splits)

subsection \<open>The timestamp window\<close>

lemma window_errors_outside:
  assumes "timestamp p = Some t" "t \<noteq> 0" "t < now - 604800000 \<or> t > now + 300000"
  shows "''Timestamp is too far in the future'' \<in> set (window_errors now p)
       \<or> ''Timestamp is too old (max 7 days)'' \<in> set (window_errors now p)"
  using assms by (auto simp: window_errors_def maxAge_def maxFuture_def)

lemma window_errors_inside:
  assumes "timestamp p = Some t" "now - 604800000 \<le> t" "t \<le> now + 300000"
  shows "window_errors now p = []"
  using assms by (simp add: window_errors_def maxAge_def maxFuture_def)

lemma required_errors_subset:
  "set (required_errors p) \<subseteq> {''Missing or invalid deviceId'', ''Missing or invalid stepCount'',
       ''Missing or invalid timestamp'', ''Missing or invalid signature''}"
  by (auto simp: required_errors_def)

lemma range_errors_subset: "set (range_errors p) \<subseteq> {''Step count out of range (0-100000)''}"
  by (auto simp: range_errors_def split: option.splits)

lemma battery_errors_subset:
  "set (battery_errors p) \<subseteq> {''Battery percent out of range (0-100)''}"
  by (auto simp: battery_errors_def split: option.splits)

lemma errors_validatePayload:
  "errors (validatePayload now p) =
     required_errors p @ range_errors p @ window_errors now p @ battery_errors p"
  "valid (validatePayload now p) = (errors (validatePayload now p) = [])"
  by (simp_all add: validatePayload_def Let_def)

lemma timestamp_zero_missing:
  "timestamp p = Some 0 \<Longrightarrow> ''Missing or invalid timestamp'' \<in> set (required_errors p)"
  by (simp add: required_errors_def missing_number_def)

lemma window_error_absent:
  assumes "window_errors now p = []"
  shows "''Timestamp is too far in the future'' \<notin> set (errors (validatePayload now p))"
    and "''Timestamp is too old (max 7 days)'' \<notin> set (errors (validatePayload now p))"
proof -
  have a: "''Timestamp is too far in the future'' \<notin> set (required_errors p)"
    "''Timestamp is too old (max 7 days)'' \<notin> set (required_errors p)"
    using required_errors_subset[of p] by auto
  have b: "''Timestamp is too far in the future'' \<notin> set (range_errors p)"
    "''Timestamp is too old (max 7 days)'' \<notin> set (range_errors p)"
    using range_errors_subset[of p] by auto
  have c: "''Timestamp is too far in the future'' \<notin> set (battery_errors p)"
    "''Timestamp is too old (max 7 days)'' \<notin> set (battery_errors p)"
    using battery_errors_subset[of p] by auto
  show "''Timestamp is too far in the future'' \<notin> set (errors (validatePayload now p))"
    using a b c assms by (simp add: errors_validatePayload(1))
  show "''Timestamp is too old (max 7 days)'' \<notin> set (errors (validatePayload now p))"
    using a b c assms by (simp add: errors_validatePayload(1))
qed

text \<open>
  Claim C9. A \<open>step_data\<close> message whose timestamp is more than 7 days before \<open>now\<close> or
  more than 5 minutes after it fails \<open>validatePayload\<close> with an error about the timestamp;
  the handler answers with a failure frame and the store is unchanged, and when the message
  is from the authenticated, registered device the frame lists the validation errors. A
  timestamp inside the window gets neither of the two window errors.
\<close>

theorem timestamp_window:
  assumes "timestamp msg = Some t"
  shows "(t < now - 604800000 \<or> t > now + 300000 \<longrightarrow>
            \<not> valid (validatePayload now (with_defaults msg))
          \<and> (\<exists>e \<in> set (errors (validatePayload now (with_defaults msg))).
                e \<in> {''Missing or invalid timestamp'', ''Timestamp is too far in the future'',
                     ''Timestamp is too old (max 7 days)''})
          \<and> (\<exists>e. handleStepData rt now msg sid s = (s, step_data_failure e))
          \<and> (\<forall>d. deviceId msg = Some d \<and> sid = Some d \<and> getDevice s d \<noteq> None \<longrightarrow>
                handleStepData rt now msg sid s =
                  (s, step_data_failure (''Validation failed: '' @
                        join_with '', '' (errors (validatePayload now (with_defaults msg)))))))
       \<and> (now - 604800000 \<le> t \<and> t \<le> now + 300000 \<longrightarrow>
            ''Timestamp is too far in the future''
               \<notin> set (errors (validatePayload now (with_defaults msg)))
          \<and> ''Timestamp is too old (max 7 days)''
               \<notin> set (errors (validatePayload now (with_defaults msg))))"
proof -
  let ?p = "with_defaults msg"
  have ts: "timestamp ?p = Some t"
    using assms by simp
  have inside: "now - 604800000 \<le> t \<and> t \<le> now + 300000 \<longrightarrow>
            ''Timestamp is too far in the future'' \<notin> set (errors (validatePayload now ?p))
          \<and> ''Timestamp is too old (max 7 days)'' \<notin> set (errors (validatePayload now ?p))"
    using window_errors_inside[OF ts] window_error_absent[of now ?p] by blast
  have outside: "\<not> valid (validatePayload now ?p)
          \<and> (\<exists>e \<in> set (errors (validatePayload now ?p)).
                e \<in> {''Missing or invalid timestamp'', ''Timestamp is too far in the future'',
                     ''Timestamp is too old (max 7 days)''})
          \<and> (\<exists>e. handleStepData rt now msg sid s = (s, step_data_failure e))
          \<and> (\<forall>d. deviceId msg = Some d \<and> sid = Some d \<and> getDevice s d \<noteq> None \<longrightarrow>
                handleStepData rt now msg sid s =
                  (s, step_data_failure (''Validation failed: '' @
                        join_with '', '' (errors (validatePayload now ?p)))))"
    if out: "t < now - 604800000 \<or> t > now + 300000"
  proof -
    have e: "\<exists>e \<in> set (errors (validatePayload now ?p)).
                e \<in> {''Missing or invalid timestamp'', ''Timestamp is too far in the future'',
                     ''Timestamp is too old (max 7 days)''}"
    proof (cases "t = 0")
      case True
      then have "''Missing or invalid timestamp'' \<in> set (errors (validatePayload now ?p))"
        using timestamp_zero_missing[of ?p] ts by (simp add: errors_validatePayload(1))
      then show ?thesis
        by blast
    next
      case False
      from window_errors_outside[OF ts False out]
      have "''Timestamp is too far in the future'' \<in> set (errors (validatePayload now ?p))
          \<or> ''Timestamp is too old (max 7 days)'' \<in> set (errors (validatePayload now ?p))"
        by (auto simp: errors_validatePayload(1))
      then show ?thesis
        by blast
    qed
    then have nv: "\<not> valid (validatePayload now ?p)"
      by (auto simp: errors_validatePayload(2))
    then have "\<not> accepted rt now msg sid s"
      by (auto simp: accepted_def split: option.splits)
    then have r: "\<exists>e. handleStepData rt now msg sid s = (s, step_data_failure e)"
      by (rule handleStepData_rejected)
    have "\<forall>d. deviceId msg = Some d \<and> sid = Some d \<and> getDevice s d \<noteq> None \<longrightarrow>
          handleStepData rt now msg sid s =
            (s, step_data_failure (''Validation failed: '' @
                  join_with '', '' (errors (validatePayload now ?p))))"
      using nv handleStepData_invalid[of msg _ sid s _ now rt] by blast
    then show ?thesis
      using e nv r by blast
  qed
  show ?thesis
    using inside outside by blast
qed

theorem timestamp_window_witness:
  "timestamp (step_msg 1699308800000 (Some 100) (Some 85) ''0x532a'') = Some 1699308800000
   \<and> (1699308800000 :: int) < 1700000000000 - 604800000
   \<and> handleStepData stub_runtime 1700000000000
        (step_msg 1699308800000 (Some 100) (Some 85) ''0x532a'') (Some ''d1'') two_devices
       = (two_devices, step_data_failure ''Validation failed: Timestamp is too old (max 7 days)'')
   \<and> timestamp (step_msg 1699999940000 (Some 100) (Some 85) ''0x532a'') = Some 1699999940000
   \<and> (1700000000000 :: int) - 604800000 \<le> 1699999940000
   \<and> (1699999940000 :: int) \<le> 1700000000000 + 300000
   \<and> ''Timestamp is too old (max 7 days)'' \<notin> set (errors (validatePayload 1700000000000
         (with_defaults (step_msg 1699999940000 (Some 100) (Some 85) ''0x532a''))))"
proof -
  let ?old = "step_msg 1699308800000 (Some 100) (Some 85) ''0x532a''"
  let ?ok = "step_msg 1699999940000 (Some 100) (Some 85) ''0x532a''"
  have t1: "timestamp ?old = Some 1699308800000" and t2: "timestamp ?ok = Some 1699999940000"
    and d: "deviceId ?old = Some ''d1''"
    by (simp_all add: step_msg_def)
  have g: "getDevice two_devices ''d1'' \<noteq> None"
    by code_simp
  have e: "errors (validatePayload 1700000000000 (with_defaults ?old))
             = [''Timestamp is too old (max 7 days)'']"
    by (simp add: errors_validatePayload(1) required_errors_def range_errors_def
        window_errors_def battery_errors_def missing_string_def missing_number_def
        maxAge_def maxFuture_def or_100_def step_msg_def)
  from timestamp_window[OF t1, of 1700000000000 stub_runtime "Some ''d1''" two_devices] d g e
  have a: "handleStepData stub_runtime 1700000000000 ?old (Some ''d1'') two_devices
       = (two_devices, step_data_failure ''Validation failed: Timestamp is too old (max 7 days)'')"
    by simp
  from timestamp_window[OF t2, of 1700000000000 stub_runtime "Some ''d1''" two_devices]
  have b: "''Timestamp is too old (max 7 days)'' \<notin> set (errors (validatePayload 1700000000000
         (with_defaults ?ok)))"
    by simp
  show ?thesis
    using a b t1 t2 by simp
qed

subsection \<open>Repeated submissions\<close>

text \<open>
  Claim C2, as the code has it. Neither \<open>handleStepData\<close> nor \<open>storeStepData\<close> looks for
  an earlier row of the same device and timestamp, and the table has no uniqueness
  constraint on that pair. A submission that passes the checks is stored again when it is
  sent again inside the time window: the two rows carry the same device id and timestamp
  and differ in their ids.
\<close>

theorem repeated_submission_stored_twice:
  assumes "accepted rt now1 msg sid s"
    and "valid (validatePayload now2 (with_defaults msg))"
    and "deviceId msg = Some d" "timestamp msg = Some t"
  shows "\<exists>r1 r2.
           step_data (fst (handleStepData rt now2 msg sid (fst (handleStepData rt now1 msg sid s))))
             = step_data s @ [r1, r2]
         \<and> sd_device_id r1 = d \<and> sd_timestamp r1 = t \<and> sd_verified r1
         \<and> sd_device_id r2 = d \<and> sd_timestamp r2 = t \<and> sd_verified r2
         \<and> row_id r1 \<noteq> row_id r2"
proof -
  from handleStepData_accepted[OF assms(1)] assms(3,4) obtain n sg where
    h1: "stepCount msg = Some n" "signature msg = Some sg"
      "handleStepData rt now1 msg sid s =
         (fst (storeStepData (number_toString rt) now1 d
                 \<lparr> f_stepCount = n, f_timestamp = t, f_rawAccSamples = rawAccSamples msg,
                   f_batteryPercent = batteryPercent msg, f_signature = sg,
                   f_verified = True \<rparr> s),
          if \<not> missing_number (firmwareVersion msg)
          then step_data_failure ''deviceManager.updateFirmwareVersion is not a function''
          else step_data_success n)"
    by auto
  let ?sf = "\<lparr> f_stepCount = n, f_timestamp = t, f_rawAccSamples = rawAccSamples msg,
               f_batteryPercent = batteryPercent msg, f_signature = sg, f_verified = True \<rparr>"
  let ?s1 = "fst (storeStepData (number_toString rt) now1 d ?sf s)"
  have a2: "accepted rt now2 msg sid ?s1"
    using accepted_after_store[OF assms(1,2)] .
  from handleStepData_accepted[OF a2] assms(3,4) h1(1,2)
  have h2: "fst (handleStepData rt now2 msg sid ?s1)
             = fst (storeStepData (number_toString rt) now2 d ?sf ?s1)"
    by auto
  show ?thesis
    unfolding h1(3) fst_conv h2
    by (simp add: storeStepData_def Let_def)
qed

lemma resend_accepted:
  "accepted stub_runtime 1700000000000 resend_msg (Some ''d1'') two_devices"
  by code_simp

theorem repeated_submission_counterexample:
  "snd (handleStepData stub_runtime 1700000000000 resend_msg (Some ''d1'') two_devices)
     = step_data_success 100
   \<and> snd (handleStepData stub_runtime 1700000001000 resend_msg (Some ''d1'')
        (fst (handleStepData stub_runtime 1700000000000 resend_msg (Some ''d1'') two_devices)))
     = step_data_success 100
   \<and> map (\<lambda>r. (row_id r, sd_device_id r, sd_timestamp r))
        (step_data (fst (handleStepData stub_runtime 1700000001000 resend_msg (Some ''d1'')
          (fst (handleStepData stub_runtime 1700000000000 resend_msg (Some ''d1'') two_devices)))))
     = [(1, ''d1'', 1699999940000), (2, ''d1'', 1699999940000)]"
  by code_simp

theorem repeated_submission_stored_twice_witness:
  "accepted stub_runtime 1700000000000 resend_msg (Some ''d1'') two_devices
   \<and> valid (validatePayload 1700000001000 (with_defaults resend_msg))
   \<and> deviceId resend_msg = Some ''d1'' \<and> timestamp resend_msg = Some 1699999940000
   \<and> (\<exists>r1 r2.
           step_data (fst (handleStepData stub_runtime 1700000001000 resend_msg (Some ''d1'')
               (fst (handleStepData stub_runtime 1700000000000 resend_msg (Some ''d1'')
                  two_devices))))
             = step_data two_devices @ [r1, r2]
         \<and> sd_device_id r1 = ''d1'' \<and> sd_timestamp r1 = 1699999940000 \<and> sd_verified r1
         \<and> sd_device_id r2 = ''d1'' \<and> sd_timestamp r2 = 1699999940000 \<and> sd_verified r2
         \<and> row_id r1 \<noteq> row_id r2)"
proof -
  have v: "valid (validatePayload 1700000001000 (with_defaults resend_msg))"
    by code_simp
  have d: "deviceId resend_msg = Some ''d1''" and t: "timestamp resend_msg = Some 1699999940000"
    by (simp_all add: resend_msg_def step_msg_def)
  from repeated_submission_stored_twice[OF resend_accepted v d t] resend_accepted v d t
  show ?thesis
    by blast
qed

subsection \<open>The substituted defaults\<close>

lemma canonical_payload_battery:
  assumes "batteryPercent p = Some b"
  shows "\<exists>rest. buildCanonicalJSON fmt (payload_object p) =
           ''{'' @ quote ''batteryPercent'' @ '':'' @ number_text b @ rest"
  using assms
  by (simp add: buildCanonicalJSON_def sortedObject_payload_object opt_json_def join_comma_Cons)

lemma number_text_100: "number_text 100 = ''100''" "number_text 0 = ''0''"
  by code_simp+

lemma canonical_battery_100_not_0:
  assumes "batteryPercent p = Some 100" "batteryPercent q = Some 0"
  shows "buildCanonicalJSON fmt (payload_object p) \<noteq> buildCanonicalJSON fmt' (payload_object q)"
proof -
  from canonical_payload_battery[OF assms(1), of fmt] obtain r1 where
    a: "buildCanonicalJSON fmt (payload_object p) =
          ''{'' @ quote ''batteryPercent'' @ '':'' @ number_text 100 @ r1"
    by blast
  from canonical_payload_battery[OF assms(2), of fmt'] obtain r2 where
    b: "buildCanonicalJSON fmt' (payload_object q) =
          ''{'' @ quote ''batteryPercent'' @ '':'' @ number_text 0 @ r2"
    by blast
  show ?thesis
    unfolding a b by (simp add: number_text_100)
qed

lemma or_100_missing: "missing_number x \<Longrightarrow> or_100 x = 100"
  by (auto simp: missing_number_def or_100_def)

lemma storeStepData_battery:
  assumes "or_100 (f_batteryPercent sf) = or_100 (f_batteryPercent sf')"
    and "sf' = sf\<lparr> f_batteryPercent := b \<rparr>"
  shows "storeStepData fmt now d sf' s = storeStepData fmt now d sf s"
  using assms by (simp add: storeStepData_def Let_def)

lemma handleStepData_battery_100:
  assumes "missing_number (batteryPercent msg)"
  shows "handleStepData rt now (msg\<lparr> batteryPercent := Some 100 \<rparr>) sid s
           = handleStepData rt now msg sid s"
proof -
  let ?m = "msg\<lparr> batteryPercent := Some 100 \<rparr>"
  have w: "with_defaults ?m = with_defaults msg"
    using assms by (simp add: with_defaults_def or_100_missing) (simp add: or_100_def)
  have st: "\<And>n t sg d. storeStepData (number_toString rt) now d
                \<lparr> f_stepCount = n, f_timestamp = t, f_rawAccSamples = rawAccSamples msg,
                  f_batteryPercent = Some 100, f_signature = sg, f_verified = True \<rparr> s
            = storeStepData (number_toString rt) now d
                \<lparr> f_stepCount = n, f_timestamp = t, f_rawAccSamples = rawAccSamples msg,
                  f_batteryPercent = batteryPercent msg, f_signature = sg, f_verified = True \<rparr> s"
    using assms by (simp add: storeStepData_def Let_def or_100_missing) (simp add: or_100_def)
  show ?thesis
    unfolding handleStepData_def w
    by (auto simp: st Let_def split: option.splits)
qed

lemma firmware_version_storeStepData:
  "map firmware_version (devices (fst (storeStepData fmt now d sf s)))
     = map firmware_version (devices s)"
  by (simp add: storeStepData_def Let_def comp_def cong: map_cong)

lemma firmware_version_handleStepData:
  "map firmware_version (devices (fst (handleStepData rt now msg sid s)))
     = map firmware_version (devices s)"
proof (cases "accepted rt now msg sid s")
  case True
  from handleStepData_accepted[OF True] show ?thesis
    by (auto simp: firmware_version_storeStepData)
next
  case False
  from handleStepData_rejected[OF False] show ?thesis
    by auto
qed

lemma verifySignature_library:
  "verifySignature rt payload signatureHex publicKeyHex
     \<longleftrightarrow> (\<exists>sb pb. hexToBytes signatureHex = Inr sb \<and> hexToBytes publicKeyHex = Inr pb
            \<and> sign_detached_verify rt (payload_hash rt payload) sb pb = Inr True)"
  by (auto simp: verifySignature_def Let_def split: sum.splits)

lemma accepted_verified:
  assumes "accepted rt now msg sid s"
  shows "\<exists>d device sg sb pb. deviceId msg = Some d \<and> getDevice s d = Some device
           \<and> signature msg = Some sg \<and> hexToBytes sg = Inr sb
           \<and> hexToBytes (public_key device) = Inr pb
           \<and> sign_detached_verify rt (payload_hash rt (payload_object (with_defaults msg))) sb pb
               = Inr True"
  using assms by (auto simp: accepted_def verifySignature_library split: option.splits)

lemma accepted_last_row_battery:
  assumes "accepted rt now msg sid s"
  shows "sd_battery_percent (last (step_data (fst (handleStepData rt now msg sid s))))
           = or_100 (batteryPercent msg)"
  using handleStepData_accepted[OF assms] by (auto simp: storeStepData_def Let_def)

text \<open>
  Claim C10, as the code has it. For a message whose \<open>batteryPercent\<close> is absent or 0 the
  handler behaves exactly as for the same message with \<open>batteryPercent\<close> 100: the payload
  it verifies carries 100, and so does the stored row. For a \<open>firmwareVersion\<close> that is
  absent or 0 the verified payload carries 100; no firmware version is written, neither to
  the row (it has no such column) nor to the device. A submission is stored only if the
  library accepts its signature for the digest of the payload with the substituted values,
  whose canonical text differs from the text with \<open>batteryPercent\<close> 0.
\<close>

theorem defaults_substituted:
  "(batteryPercent msg = None \<or> batteryPercent msg = Some 0 \<longrightarrow>
        batteryPercent (with_defaults msg) = Some 100
      \<and> handleStepData rt now (msg\<lparr> batteryPercent := Some 100 \<rparr>) sid s
          = handleStepData rt now msg sid s
      \<and> (accepted rt now msg sid s \<longrightarrow>
           sd_battery_percent (last (step_data (fst (handleStepData rt now msg sid s)))) = 100)
      \<and> buildCanonicalJSON (number_toString rt) (payload_object (with_defaults msg))
          \<noteq> buildCanonicalJSON (number_toString rt)
               (payload_object ((with_defaults msg)\<lparr> batteryPercent := Some 0 \<rparr>)))
   \<and> (firmwareVersion msg = None \<or> firmwareVersion msg = Some 0 \<longrightarrow>
        firmwareVersion (with_defaults msg) = Some 100
      \<and> with_defaults (msg\<lparr> firmwareVersion := Some 100 \<rparr>) = with_defaults msg)
   \<and> map firmware_version (devices (fst (handleStepData rt now msg sid s)))
       = map firmware_version (devices s)
   \<and> (accepted rt now msg sid s \<longrightarrow>
        (\<exists>d device sg sb pb. deviceId msg = Some d \<and> getDevice s d = Some device
           \<and> signature msg = Some sg \<and> hexToBytes sg = Inr sb
           \<and> hexToBytes (public_key device) = Inr pb
           \<and> sign_detached_verify rt (payload_hash rt (payload_object (with_defaults msg))) sb pb
               = Inr True))
   \<and> (\<not> accepted rt now msg sid s \<longrightarrow>
        (\<exists>e. handleStepData rt now msg sid s = (s, step_data_failure e)))"
proof -
  have battery: "batteryPercent (with_defaults msg) = Some 100
      \<and> handleStepData rt now (msg\<lparr> batteryPercent := Some 100 \<rparr>) sid s
          = handleStepData rt now msg sid s
      \<and> (accepted rt now msg sid s \<longrightarrow>
           sd_battery_percent (last (step_data (fst (handleStepData rt now msg sid s)))) = 100)
      \<and> buildCanonicalJSON (number_toString rt) (payload_object (with_defaults msg))
          \<noteq> buildCanonicalJSON (number_toString rt)
               (payload_object ((with_defaults msg)\<lparr> batteryPercent := Some 0 \<rparr>))"
    if "batteryPercent msg = None \<or> batteryPercent msg = Some 0"
  proof -
    have m: "missing_number (batteryPercent msg)"
      using that by (simp add: missing_number_def)
    have b: "batteryPercent (with_defaults msg) = Some 100"
      using m by (simp add: or_100_missing)
    have c: "buildCanonicalJSON (number_toString rt) (payload_object (with_defaults msg))
          \<noteq> buildCanonicalJSON (number_toString rt)
               (payload_object ((with_defaults msg)\<lparr> batteryPercent := Some 0 \<rparr>))"
      by (rule canonical_battery_100_not_0[OF b]) simp
    show ?thesis
      using b c handleStepData_battery_100[OF m] accepted_last_row_battery[of rt now msg sid s]
        or_100_missing[OF m] by simp
  qed
  have firmware: "firmwareVersion (with_defaults msg) = Some 100
      \<and> with_defaults (msg\<lparr> firmwareVersion := Some 100 \<rparr>) = with_defaults msg"
    if "firmwareVersion msg = None \<or> firmwareVersion msg = Some 0"
    using that by (auto simp: with_defaults_def or_100_def)
  show ?thesis
    using battery firmware firmware_version_handleStepData[of rt now msg sid s]
      accepted_verified[of rt now msg sid s] handleStepData_rejected[of rt now msg sid s]
    by blast
qed

lemma low_msg_accepted: "accepted stub_runtime 1700000000000 low_msg (Some ''d1'') two_devices"
  by code_simp

lemma zero_msg_signed:
  "verifySignature stub_runtime
     (payload_object ((with_defaults zero_msg)\<lparr> batteryPercent := Some 0 \<rparr>)) ''0x162a'' ''0x2a''"
  by code_simp

lemma zero_msg_rejected:
  "\<not> accepted stub_runtime 1700000000000 zero_msg (Some ''d1'') two_devices"
  by code_simp

theorem defaults_substituted_witness:
  "batteryPercent low_msg = None \<and> firmwareVersion low_msg = None
   \<and> accepted stub_runtime 1700000000000 low_msg (Some ''d1'') two_devices
   \<and> sd_battery_percent (last (step_data (fst
        (handleStepData stub_runtime 1700000000000 low_msg (Some ''d1'') two_devices)))) = 100
   \<and> handleStepData stub_runtime 1700000000000 (low_msg\<lparr> batteryPercent := Some 100 \<rparr>)
        (Some ''d1'') two_devices
       = handleStepData stub_runtime 1700000000000 low_msg (Some ''d1'') two_devices
   \<and> with_defaults (low_msg\<lparr> firmwareVersion := Some 100 \<rparr>) = with_defaults low_msg
   \<and> batteryPercent zero_msg = Some 0
   \<and> verifySignature stub_runtime
        (payload_object ((with_defaults zero_msg)\<lparr> batteryPercent := Some 0 \<rparr>)) ''0x162a'' ''0x2a''
   \<and> \<not> accepted stub_runtime 1700000000000 zero_msg (Some ''d1'') two_devices
   \<and> (\<exists>e. handleStepData stub_runtime 1700000000000 zero_msg (Some ''d1'') two_devices
             = (two_devices, step_data_failure e))"
proof -
  have l: "batteryPercent low_msg = None" "firmwareVersion low_msg = None"
    by (simp_all add: low_msg_def step_msg_def)
  have z: "batteryPercent zero_msg = Some 0"
    by (simp add: zero_msg_def step_msg_def)
  from defaults_substituted[of low_msg stub_runtime 1700000000000 "Some ''d1''" two_devices]
    l low_msg_accepted
  have a: "sd_battery_percent (last (step_data (fst
        (handleStepData stub_runtime 1700000000000 low_msg (Some ''d1'') two_devices)))) = 100
   \<and> handleStepData stub_runtime 1700000000000 (low_msg\<lparr> batteryPercent := Some 100 \<rparr>)
        (Some ''d1'') two_devices
       = handleStepData stub_runtime 1700000000000 low_msg (Some ''d1'') two_devices
   \<and> with_defaults (low_msg\<lparr> firmwareVersion := Some 100 \<rparr>) = with_defaults low_msg"
    by blast
  from defaults_substituted[of zero_msg stub_runtime 1700000000000 "Some ''d1''" two_devices]
    zero_msg_rejected
  have b: "\<exists>e. handleStepData stub_runtime 1700000000000 zero_msg (Some ''d1'') two_devices
             = (two_devices, step_data_failure e)"
    by blast
  show ?thesis
    using a b l z low_msg_accepted zero_msg_signed zero_msg_rejected by blast
qed

text \<open>
  Against the claim as stated: an accepted message without \<open>firmwareVersion\<close> leaves no
  firmware version 100 in the store; only the battery value is substituted there.
\<close>

theorem firmware_default_not_stored:
  "firmwareVersion low_msg = None
   \<and> accepted stub_runtime 1700000000000 low_msg (Some ''d1'') two_devices
   \<and> map sd_battery_percent (step_data (fst
        (handleStepData stub_runtime 1700000000000 low_msg (Some ''d1'') two_devices))) = [100]
   \<and> map firmware_version (devices (fst
        (handleStepData stub_runtime 1700000000000 low_msg (Some ''d1'') two_devices)))
       = [None, None]"
  by code_simp

subsection \<open>Authentication on a connection\<close>

text \<open>
  Claim C8, as the code has it. The connection keeps no record of a \<open>register\<close> message:
  \<open>authenticate\<close> is handled alike in every connection state, the initial one included.
  It succeeds exactly when \<open>deviceId\<close> is present, not empty and names a device of the
  store; the connection is then entered in the connection map and becomes authenticated
  for that device. Otherwise one \<open>auth_response\<close> with \<open>success: false\<close> is sent, and the
  store and the connection state stay as they were.
\<close>

theorem authenticate_any_state:
  assumes "msg_type msg = ''authenticate''"
  shows "on_message rt suiClient pet_handlers now ws msg (s, sess) =
     (case deviceId msg of
        None \<Rightarrow> ((s, sess), [auth_failure ''Missing deviceId''])
      | Some d \<Rightarrow>
          if d = [] then ((s, sess), [auth_failure ''Missing deviceId''])
          else if getDevice s d = None
               then ((s, sess), [auth_failure ''Device not registered''])
               else ((registerConnection now d ws s,
                      sess\<lparr> session_deviceId := Some d, authenticated := True \<rparr>),
                     [auth_success d]))"
  using assms
  by (auto simp: on_message_def handleAuthenticate_def Let_def split: option.splits)

theorem authenticate_any_state_witness:
  "msg_type (auth_msg (Some ''d1'')) = ''authenticate''
   \<and> on_message stub_runtime None (\<lambda>m d. []) 5000 7 (auth_msg (Some ''d1''))
        (two_devices, new_session)
      = ((registerConnection 5000 ''d1'' 7 two_devices,
          \<lparr> session_deviceId = Some ''d1'', authenticated = True \<rparr>), [auth_success ''d1''])
   \<and> on_message stub_runtime None (\<lambda>m d. []) 5000 7 (auth_msg (Some ''d9''))
        (two_devices, new_session)
      = ((two_devices, new_session), [auth_failure ''Device not registered''])"
proof -
  have t: "msg_type (auth_msg (Some ''d1'')) = ''authenticate''"
    "msg_type (auth_msg (Some ''d9'')) = ''authenticate''"
    by (simp_all add: auth_msg_def)
  have g: "getDevice two_devices ''d1'' \<noteq> None" "getDevice two_devices ''d9'' = None"
    by code_simp+
  have d: "deviceId (auth_msg (Some ''d1'')) = Some ''d1''"
    "deviceId (auth_msg (Some ''d9'')) = Some ''d9''"
    by (simp_all add: auth_msg_def)
  from authenticate_any_state[OF t(1), of stub_runtime None "\<lambda>m d. []" 5000 7 two_devices
      new_session] g(1) d(1)
  have a: "on_message stub_runtime None (\<lambda>m d. []) 5000 7 (auth_msg (Some ''d1''))
        (two_devices, new_session)
      = ((registerConnection 5000 ''d1'' 7 two_devices,
          \<lparr> session_deviceId = Some ''d1'', authenticated = True \<rparr>), [auth_success ''d1''])"
    by (simp add: new_session_def)
  from authenticate_any_state[OF t(2), of stub_runtime None "\<lambda>m d. []" 5000 7 two_devices
      new_session] g(2) d(2)
  have b: "on_message stub_runtime None (\<lambda>m d. []) 5000 7 (auth_msg (Some ''d9''))
        (two_devices, new_session)
      = ((two_devices, new_session), [auth_failure ''Device not registered''])"
    by simp
  show ?thesis
    using a b t by blast
qed

text \<open>
  Against the claim as stated: on a new connection that has sent no \<open>register\<close>, an
  \<open>authenticate\<close> for a device already in the store succeeds.
\<close>

theorem authenticate_without_register_accepted:
  "snd (on_message stub_runtime None (\<lambda>m d. []) 5000 7 (auth_msg (Some ''d1''))
          (two_devices, new_session)) = [auth_success ''d1'']
   \<and> authenticated (snd (fst (on_message stub_runtime None (\<lambda>m d. []) 5000 7
          (auth_msg (Some ''d1'')) (two_devices, new_session))))
   \<and> session_deviceId (snd (fst (on_message stub_runtime None (\<lambda>m d. []) 5000 7
          (auth_msg (Some ''d1'')) (two_devices, new_session)))) = Some ''d1''"
  by code_simp

subsection \<open>Registration with a public key that another device holds\<close>

text \<open>
  Claim C5 at the input \<open>register d3\<close> with the public key of \<open>d1\<close>. The \<open>INSERT\<close> fails on
  the \<open>UNIQUE\<close> constraint of \<open>public_key\<close>; the \<open>catch\<close> takes this for a repeated device
  id, updates no row and returns \<open>getDevice(d3)\<close>, which is \<open>undefined\<close>; the handler
  answers \<open>success: true\<close> without a device. The devices table is unchanged.
\<close>

theorem register_shared_key_reports_success:
  "getDevice two_devices ''d3'' = None
   \<and> map public_key (devices two_devices) = [''0x2a'', ''0x2b'']
   \<and> snd (handleRegister None 3000 (register_msg ''d3'' ''0x2a'') two_devices)
       = register_success None None
   \<and> devices (fst (handleRegister None 3000 (register_msg ''d3'' ''0x2a'') two_devices))
       = devices two_devices
   \<and> snd (handleRegister None 3000 (register_msg ''d1'' ''0x2a'') two_devices)
       = register_success
           (Some \<lparr> device_id = ''d1'', public_key = ''0x2a'', registered_at = 1000,
                   last_seen = Some 3000, firmware_version = None, total_steps = 0,
                   total_submissions = 0, status = ''active'',
                   sui_device_object_id = Some ''0xobj1'' \<rparr>) None"
  by code_simp

subsection \<open>The batch run\<close>

text \<open>
  Claim C7 at the store of scenario S5: two devices with chain handles, three pending rows
  of \<open>d1\<close> (50, 75, 25 steps) and one of \<open>d2\<close> (200 steps), and a chain client that accepts
  every call. The run ends in the \<open>TypeError\<close>; no chain call is made and the four rows
  stay pending.
\<close>

theorem batch_run_throws:
  "map (\<lambda>r. (sd_device_id r, sd_step_count r)) (getPendingStepData None batch_store)
     = [(''d1'', 50), (''d1'', 75), (''d2'', 200), (''d1'', 25)]
   \<and> map sui_device_object_id (devices batch_store) = [Some ''0xobj1'', Some ''0xobj2'']
   \<and> fst (submitBatchToBlockchain (Some willing_chain) batch_store)
       = Inl (TypeError ''pending is not iterable'')
   \<and> snd (snd (submitBatchToBlockchain (Some willing_chain) batch_store)) = []
   \<and> map row_id (getPendingStepData None
         (fst (snd (submitBatchToBlockchain (Some willing_chain) batch_store)))) = [1, 2, 3, 4]"
  by code_simp

subsection \<open>Pet statistics\<close>

text \<open>
  The writers that compute their values saturate them: a table whose rows are within
  0..100 stays so under \<open>feedPetLocal\<close>, \<open>playWithPetLocal\<close> and \<open>updateTimeBasedStats\<close>.
\<close>

lemma num_simps [simp]: "num (Some v) = v" "num None = 0"
  by (simp_all add: num_def)

lemma getPetByPetId_in: "getPetByPetId table petId = Some pet \<Longrightarrow> pet \<in> set table"
  by (induction table) (auto simp: getPetByPetId_def split: if_splits)

lemma update_pet_bounded:
  assumes "list_all bounded table" "\<And>p. p \<in> set table \<Longrightarrow> bounded p \<Longrightarrow> bounded (f p)"
  shows "list_all bounded (update_pet petId f table)"
  using assms by (induction table) (auto simp: update_pet_def)

lemma feedPetLocal_bounded:
  assumes "list_all bounded table" "feedPetLocal now petId table = Inr table'"
  shows "list_all bounded table'"
proof (cases "getPetByPetId table petId")
  case None
  then show ?thesis
    using assms by (simp add: feedPetLocal_def)
next
  case (Some pet)
  then have b: "bounded pet"
    using assms(1) getPetByPetId_in by (auto simp: list_all_iff)
  have f: "num (food pet) > 0"
    using assms(2) Some by (auto simp: feedPetLocal_def split: if_splits)
  have "table' = update_pet petId
          (\<lambda>p. p\<lparr> food := Some (num (food pet) - 1),
                  hunger := Some (min 100 (num (hunger pet) + 25)),
                  happiness := Some (min 100 (num (happiness pet) + 5)),
                  experience := Some (num (experience pet) + 10),
                  level := (if num (experience pet) + 10 \<ge> 5000 \<and> num (level pet) < 4 then Some 4
                    else if num (experience pet) + 10 \<ge> 2000 \<and> num (level pet) < 3 then Some 3
                    else if num (experience pet) + 10 \<ge> 500 \<and> num (level pet) < 2 then Some 2
                    else if num (experience pet) + 10 \<ge> 100 \<and> num (level pet) < 1 then Some 1
                    else level pet),
                  last_fed_at := now div 1000 \<rparr>) table"
    using assms(2) Some f by (simp add: feedPetLocal_def Let_def)
  moreover have "list_all bounded \<dots>"
    by (rule update_pet_bounded[OF assms(1)]) (use b in \<open>simp add: bounded_def\<close>)
  ultimately show ?thesis
    by simp
qed

lemma playWithPetLocal_bounded:
  assumes "list_all bounded table" "playWithPetLocal now petId table = Inr table'"
  shows "list_all bounded table'"
proof (cases "getPetByPetId table petId")
  case None
  then show ?thesis
    using assms by (simp add: playWithPetLocal_def)
next
  case (Some pet)
  then have b: "bounded pet"
    using assms(1) getPetByPetId_in by (auto simp: list_all_iff)
  have f: "num (energy pet) > 0"
    using assms(2) Some by (auto simp: playWithPetLocal_def split: if_splits)
  have "table' = update_pet petId
          (\<lambda>p. p\<lparr> energy := Some (num (energy pet) - 1),
                  happiness := Some (min 100 (num (happiness pet) + 15)),
                  health := Some (min 100 (num (health pet) + 3)),
                  experience := Some (num (experience pet) + 5),
                  last_played_at := now div 1000 \<rparr>) table"
    using assms(2) Some f by (simp add: playWithPetLocal_def Let_def)
  moreover have "list_all bounded \<dots>"
    by (rule update_pet_bounded[OF assms(1)]) (use b in \<open>simp add: bounded_def\<close>)
  ultimately show ?thesis
    by simp
qed

lemma updateTimeBasedStats_bounded:
  assumes "list_all bounded table"
  shows "list_all bounded (updateTimeBasedStats zone now petId table)"
proof (cases "getPetByPetId table petId")
  case None
  then show ?thesis
    using assms by (simp add: updateTimeBasedStats_def)
next
  case (Some pet)
  then have b: "bounded pet"
    using assms(1) getPetByPetId_in by (auto simp: list_all_iff)
  define tf where "tf = now - (1000 * last_fed_at pet - zone)"
  define tp where "tp = now - (1000 * last_played_at pet - zone)"
  define nh where "nh = (if tf > 3600000 then Some (max 0 (num (hunger pet) - tf div 3600000))
                         else hunger pet)"
  define np where "np = (if tp > 7200000 then Some (max 0 (num (happiness pet) - tp div 7200000))
                         else happiness pet)"
  define ne where "ne = (if num nh < 20 \<or> num np < 20 then Some (max 0 (num (health pet) - 1))
       else if num nh > 80 \<and> num np > 80 then Some (min 100 (num (health pet) + 1))
       else health pet)"
  have d1: "0 \<le> tf div 3600000" if "tf > 3600000"
    using that by (simp add: pos_imp_zdiv_nonneg_iff)
  have d2: "0 \<le> tp div 7200000" if "tp > 7200000"
    using that by (simp add: pos_imp_zdiv_nonneg_iff)
  have h: "0 \<le> num nh \<and> num nh \<le> 100"
    using b d1 unfolding nh_def bounded_def by (cases "tf > 3600000") simp_all
  have p: "0 \<le> num np \<and> num np \<le> 100"
    using b d2 unfolding np_def bounded_def by (cases "tp > 7200000") simp_all
  have e: "0 \<le> num ne \<and> num ne \<le> 100"
    using b unfolding ne_def bounded_def by simp
  have "updateTimeBasedStats zone now petId table =
          (if nh \<noteq> hunger pet \<or> np \<noteq> happiness pet \<or> ne \<noteq> health pet
           then update_pet petId (\<lambda>p. p\<lparr> hunger := nh, happiness := np, health := ne \<rparr>) table
           else table)"
    unfolding updateTimeBasedStats_def Let_def nh_def np_def ne_def tf_def tp_def
    by (simp only: Some option.case)
  moreover have "list_all bounded
      (update_pet petId (\<lambda>p. p\<lparr> hunger := nh, happiness := np, health := ne \<rparr>) table)"
    by (rule update_pet_bounded[OF assms]) (use h p e in \<open>simp add: bounded_def\<close>)
  ultimately show ?thesis
    using assms by simp
qed

text \<open>
  Claim C4 at an \<open>updatePet\<close> message with a happiness of 250 and a hunger of -20 for the
  new pet of device \<open>d1\<close>, and at \<open>feedPet\<close> and \<open>playWithPet\<close> for that pet once its object
  on chain holds a hunger of 250. \<open>updatePetStats\<close> stores the values it is handed, whatever
  they are (first conjunct). Where the driver binds \<open>NULL\<close> for the values a handler leaves
  out, \<open>updatePet\<close> stores the 250 and the -20, and feeding and playing store the 250 of the
  chain. Where the driver refuses them, \<open>updatePet\<close> stores nothing and answers \<open>pet_error\<close>,
  and feeding falls back on the local rule. In neither case does \<open>updatePet\<close> store a value
  clamped into 0..100.
\<close>

theorem updatePet_persists_unclamped:
  "updatePetStats drv petId
      \<lparr> st_happiness = Some a, st_hunger = Some b, st_health = Some c, st_experience = Some x,
        st_total_steps_fed = Some t, st_level = Some l, st_food = Some f, st_energy = Some e \<rparr>
      [p\<lparr> pet_id := petId \<rparr>]
     = Inr [p\<lparr> pet_id := petId, happiness := Some a, hunger := Some b, health := Some c,
              experience := Some x, total_steps_fed := Some t, level := Some l,
              food := Some f, energy := Some e \<rparr>]
   \<and> map (\<lambda>p. (happiness p, hunger p, health p)) one_pet = [(Some 50, Some 50, Some 100)]
   \<and> map (\<lambda>p. (happiness p, hunger p, health p))
        (fst (handleUpdatePet Binds_null wild_update (Some ''d1'') one_pet))
       = [(Some 250, Some (- 20), Some 100)]
   \<and> snd (handleUpdatePet Binds_null wild_update (Some ''d1'') one_pet) = pet_updated ''pet_d1''
   \<and> handleUpdatePet Refuses_undefined wild_update (Some ''d1'') one_pet
       = (one_pet,
          pet_error ''SQLite3 can only bind numbers, strings, bigints, buffers, and null'')
   \<and> map (\<lambda>p. (happiness p, hunger p, health p))
        (fst (handleFeedPet Binds_null (Some wild_chain) 5000 (Some ''d1'') one_pet_on_chain))
       = [(Some 55, Some 250, Some 100)]
   \<and> map (\<lambda>p. (happiness p, hunger p, health p))
        (fst (handleFeedPet Refuses_undefined (Some wild_chain) 5000 (Some ''d1'')
                one_pet_on_chain))
       = [(Some 55, Some 75, Some 100)]
   \<and> map (\<lambda>p. (happiness p, hunger p, health p))
        (fst (handlePlayWithPet Binds_null (Some wild_chain) 5000 (Some ''d1'') one_pet_on_chain))
       = [(Some 55, Some 250, Some 100)]"
proof -
  have g: "updatePetStats drv petId
      \<lparr> st_happiness = Some a, st_hunger = Some b, st_health = Some c, st_experience = Some x,
        st_total_steps_fed = Some t, st_level = Some l, st_food = Some f, st_energy = Some e \<rparr>
      [p\<lparr> pet_id := petId \<rparr>]
     = Inr [p\<lparr> pet_id := petId, happiness := Some a, hunger := Some b, health := Some c,
              experience := Some x, total_steps_fed := Some t, level := Some l,
              food := Some f, energy := Some e \<rparr>]"
    by (simp add: updatePetStats_def update_pet_def)
  have c1: "map (\<lambda>p. (happiness p, hunger p, health p)) one_pet = [(Some 50, Some 50, Some 100)]"
    by code_simp
  have c2: "map (\<lambda>p. (happiness p, hunger p, health p))
        (fst (handleUpdatePet Binds_null wild_update (Some ''d1'') one_pet))
       = [(Some 250, Some (- 20), Some 100)]"
    by code_simp
  have c3: "snd (handleUpdatePet Binds_null wild_update (Some ''d1'') one_pet)
              = pet_updated ''pet_d1''"
    by code_simp
  have c4: "handleUpdatePet Refuses_undefined wild_update (Some ''d1'') one_pet
       = (one_pet,
          pet_error ''SQLite3 can only bind numbers, strings, bigints, buffers, and null'')"
    by code_simp
  have c5: "map (\<lambda>p. (happiness p, hunger p, health p))
        (fst (handleFeedPet Binds_null (Some wild_chain) 5000 (Some ''d1'') one_pet_on_chain))
       = [(Some 55, Some 250, Some 100)]"
    by code_simp
  have c6: "map (\<lambda>p. (happiness p, hunger p, health p))
        (fst (handleFeedPet Refuses_undefined (Some wild_chain) 5000 (Some ''d1'')
                one_pet_on_chain))
       = [(Some 55, Some 75, Some 100)]"
    by code_simp
  have c7: "map (\<lambda>p. (happiness p, hunger p, health p))
        (fst (handlePlayWithPet Binds_null (Some wild_chain) 5000 (Some ''d1'') one_pet_on_chain))
       = [(Some 55, Some 250, Some 100)]"
    by code_simp
  show ?thesis
    by (intro conjI) (rule g c1 c2 c3 c4 c5 c6 c7)+
qed

end
